theory Spec2Isabelle
  imports Complex_Main
begin

section \<open>Coral Compatibility Test Suite (coral\_cts.py)\<close>

text \<open>
  A shallow embedding of \<^verbatim>\<open>coral_cts.py\<close>: the \<^verbatim>\<open>TestSuite\<close> class (the result
  aggregator and summary writer, the process runner, the hardware detector, the thermal
  sampler, the system info reporter) and \<^verbatim>\<open>main\<close> (the CLI driver).

  The program is a sequence of effects on three things outside it: the files it writes,
  the console, and the child processes it starts. They are modelled by an explicit
  \<open>world\<close> that is passed through every method, next to the \<^verbatim>\<open>TestSuite\<close> object itself.
  What the outside answers (the output and exit code of a child process, the working
  directory, the platform name) is read from an \<open>env\<close> record, so that every theorem holds
  for every behaviour of the outside.
\<close>

subsection \<open>Python values and builtins\<close>

text \<open>Exceptions derived from \<^verbatim>\<open>Exception\<close>, each with the text that \<^verbatim>\<open>str(e)\<close> gives.\<close>

datatype py_error = IndexError string | ValueError string | OSError string

fun str_error :: "py_error \<Rightarrow> string" where
  "str_error (IndexError m) = m"
| "str_error (ValueError m) = m"
| "str_error (OSError m) = m"

text \<open>
  A \<^verbatim>\<open>dict\<close> keeps its keys in insertion order: it is an association list with one entry
  per key. \<^verbatim>\<open>d[k] = v\<close> overwrites the value of a key that is present, in place, and
  appends a key that is new.
\<close>

fun dict_set :: "('k \<times> 'v) list \<Rightarrow> 'k \<Rightarrow> 'v \<Rightarrow> ('k \<times> 'v) list" where
  "dict_set [] k v = [(k, v)]"
| "dict_set ((k', v') # d) k v =
     (if k' = k then (k, v) # d else (k', v') # dict_set d k v)"

text \<open>\<^verbatim>\<open>sub in line\<close> on strings: \<open>sub\<close> occurs in \<open>line\<close> as a contiguous piece.\<close>

fun py_in :: "string \<Rightarrow> string \<Rightarrow> bool" where
  "py_in sub [] = (sub = [])"
| "py_in sub (c # cs) = (take (length sub) (c # cs) = sub \<or> py_in sub cs)"

text \<open>
  \<^verbatim>\<open>max(xs)\<close>: the first of the greatest elements; \<^verbatim>\<open>ValueError\<close> on an empty
  sequence (\<open>None\<close> here, turned into the exception where it is called).
\<close>

fun py_max :: "'a::linorder list \<Rightarrow> 'a option" where
  "py_max [] = None"
| "py_max (x # xs) = Some (foldl (\<lambda>m y. if m < y then y else m) x xs)"

text \<open>\<^verbatim>\<open>os.path.join(a, b)\<close> of \<^verbatim>\<open>posixpath\<close>: an absolute \<open>b\<close> replaces \<open>a\<close>.\<close>

definition ospath_join :: "string \<Rightarrow> string \<Rightarrow> string" where
  "ospath_join a b =
     (if take 1 b = ''/'' then b
      else if a = [] \<or> last a = CHR ''/'' then a @ b
      else a @ ''/'' @ b)"

subsection \<open>Module constants\<close>

definition CTS_HEADER :: string where
  "CTS_HEADER =
     ''#####################################################\<newline>'' @
     ''        Coral Compatibility Test Suite\<newline>'' @
     ''#####################################################\<newline>\<newline>''"

definition SECTION_HEADER :: string where
  "SECTION_HEADER = ''-----------------------------------------------------\<newline>''"

subsection \<open>The outside of the program\<close>

text \<open>
  A command given to \<^verbatim>\<open>subprocess.Popen\<close>: an argument vector, or one shell command line
  (\<^verbatim>\<open>shell=True\<close>).
\<close>

datatype cmd = Exec "string list" | Shell string

text \<open>
  What happens between \<^verbatim>\<open>Popen(...)\<close> and \<^verbatim>\<open>proc.wait()\<close>. \<open>Exited ls rc\<close>: the child
  started, printed the lines \<open>ls\<close> (standard output and standard error merged) and
  exited with code \<open>rc\<close>. \<open>Raised ls e\<close>: the exception \<open>e\<close> was raised after the lines
  \<open>ls\<close> had been read; a child that could not be started is \<open>Raised [] e\<close>.
\<close>

datatype proc_run = Raised "string list" py_error | Exited "string list" int

text \<open>The three ways the download of the test data can end.\<close>

datatype fetch_outcome = FetchOk | DownloadFailed py_error | ExtractFailed py_error

text \<open>
  \<open>popen n c\<close> is the run of command \<open>c\<close> when it is the \<open>n\<close>-th process the program
  starts. \<open>can_write p\<close>: \<^verbatim>\<open>open(p, "w")\<close> succeeds. \<open>py_float\<close> and \<open>str_float\<close> are the
  builtins \<^verbatim>\<open>float\<close> on a string (\<open>None\<close> is \<^verbatim>\<open>ValueError\<close>) and \<^verbatim>\<open>str\<close> on a float;
  temperatures are exact rationals here, so rounding, infinities and NaN are outside the
  model.
\<close>

record env =
  cwd :: string
  sys_platform :: string
  platform_platform :: string
  popen :: "nat \<Rightarrow> cmd \<Rightarrow> proc_run"
  can_write :: "string \<Rightarrow> bool"
  isdir_test_data :: bool
  fetch :: fetch_outcome
  py_float :: "string \<Rightarrow> rat option"
  str_float :: "rat \<Rightarrow> string"

text \<open>
  The text files by path, what has been written to the console, and the commands handed
  to \<^verbatim>\<open>Popen\<close> so far, oldest first.
\<close>

record world =
  fs :: "string \<rightharpoonup> string"
  console :: string
  spawned :: "cmd list"

subsection \<open>The TestSuite object\<close>

text \<open>
  The attributes of \<^verbatim>\<open>TestSuite\<close>. The file handle \<^verbatim>\<open>self.file\<close> is the flag \<open>file_open\<close>:
  the handle writes to the file at \<open>file_path\<close> while it is open, and writing to a closed
  handle raises \<^verbatim>\<open>ValueError\<close>.
\<close>

record test_suite =
  results :: "(string \<times> bool) list"
  file_path :: string
  file_open :: bool
  tpus :: nat
  pci :: bool
  usb :: bool
  thermals :: "(string \<times> rat) list"

type_synonym st = "test_suite \<times> world"

text \<open>
  A method is a function from the state to a result and the state it leaves. The result
  is \<open>Inl e\<close> when the exception \<open>e\<close> leaves the method: the state is kept, since what
  was written before the exception stays written.
\<close>

type_synonym 'a prog = "st \<Rightarrow> (py_error + 'a) \<times> st"

definition ret :: "'a \<Rightarrow> 'a prog" where
  "ret x = (\<lambda>t. (Inr x, t))"

definition throw :: "py_error \<Rightarrow> 'a prog" where
  "throw e = (\<lambda>t. (Inl e, t))"

definition bnd :: "'a prog \<Rightarrow> ('a \<Rightarrow> 'b prog) \<Rightarrow> 'b prog" where
  "bnd m f = (\<lambda>t. case m t of (Inl e, t') \<Rightarrow> (Inl e, t') | (Inr x, t') \<Rightarrow> f x t')"

text \<open>Statements one after the other.\<close>

fun do_all :: "unit prog list \<Rightarrow> unit prog" where
  "do_all [] = ret ()"
| "do_all (m # ms) = bnd m (\<lambda>_. do_all ms)"

text \<open>\<^verbatim>\<open>for x in xs: body(x)\<close>.\<close>

fun for_each :: "('a \<Rightarrow> unit prog) \<Rightarrow> 'a list \<Rightarrow> unit prog" where
  "for_each body [] = ret ()"
| "for_each body (x # xs) = bnd (body x) (\<lambda>_. for_each body xs)"

text \<open>\<^verbatim>\<open>try: m  except Exception as e: h(e)\<close>.\<close>

definition try_except :: "'a prog \<Rightarrow> (py_error \<Rightarrow> 'a prog) \<Rightarrow> 'a prog" where
  "try_except m h = (\<lambda>t. case m t of (Inl e, t') \<Rightarrow> h e t' | (Inr x, t') \<Rightarrow> (Inr x, t'))"

text \<open>
  A write through a handle in mode \<^verbatim>\<open>"w"\<close> adds to the end of the file. (A file removed
  from under an open handle stays removed.)
\<close>

definition fs_append :: "(string \<rightharpoonup> string) \<Rightarrow> string \<Rightarrow> string \<Rightarrow> (string \<rightharpoonup> string)" where
  "fs_append f p m = (case f p of None \<Rightarrow> f | Some c \<Rightarrow> f(p \<mapsto> c @ m))"

text \<open>\<^verbatim>\<open>TestSuite._file_print\<close>: to the file, flushed, and to the console.\<close>

definition file_print :: "string \<Rightarrow> unit prog" where
  "file_print message = (\<lambda>(s, w).
     if file_open s
     then (Inr (), (s, w\<lparr>fs := fs_append (fs w) (file_path s) message,
                         console := console w @ message\<rparr>))
     else (Inl (ValueError ''I/O operation on closed file.''), (s, w)))"

text \<open>
  \<^verbatim>\<open>proc = Popen(c, ...)\<close>, \<^verbatim>\<open>for line in proc.stdout: body(line)\<close>, \<^verbatim>\<open>proc.wait()\<close>; the
  value is \<^verbatim>\<open>proc.returncode\<close>.
\<close>

definition popen_stream :: "env \<Rightarrow> cmd \<Rightarrow> (string \<Rightarrow> unit prog) \<Rightarrow> int prog" where
  "popen_stream e c body = (\<lambda>(s, w).
     let t = (s, w\<lparr>spawned := spawned w @ [c]\<rparr>) in
     case popen e (length (spawned w)) c of
       Raised ls err \<Rightarrow> bnd (for_each body ls) (\<lambda>_. throw err) t
     | Exited ls rc \<Rightarrow> bnd (for_each body ls) (\<lambda>_. ret rc) t)"

text \<open>\<^verbatim>\<open>self.results[test] = value\<close>.\<close>

definition set_result :: "string \<Rightarrow> bool \<Rightarrow> unit prog" where
  "set_result test v = (\<lambda>(s, w). (Inr (), (s\<lparr>results := dict_set (results s) test v\<rparr>, w)))"

text \<open>\<^verbatim>\<open>TestSuite._run_linux_system_command\<close>.\<close>

definition run_linux_system_command :: "env \<Rightarrow> string \<Rightarrow> string list \<Rightarrow> string \<Rightarrow> unit prog" where
  "run_linux_system_command e header command output_parse =
     bnd (file_print (''\<newline>***** '' @ header @ '' *****\<newline>''))
       (\<lambda>_. try_except
          (bnd (popen_stream e (Exec command)
                  (\<lambda>line. if output_parse = [] \<or> py_in output_parse line
                           then file_print line else ret ()))
               (\<lambda>_. ret ()))
          (\<lambda>err. file_print (str_error err @ ''\<newline>'')))"

text \<open>\<^verbatim>\<open>TestSuite._write_thermal_summary\<close>.\<close>

definition write_thermal_summary :: "env \<Rightarrow> unit prog" where
  "write_thermal_summary e =
     do_all [
       file_print (''\<newline>'' @ SECTION_HEADER),
       file_print (''Temperatures During Tests'' @ ''\<newline>''),
       file_print SECTION_HEADER,
       (\<lambda>(s, w). for_each
          (\<lambda>(test, temp). file_print (test @ '': '' @ str_float e temp @ ''\<newline>''))
          (thermals s) (s, w)),
       file_print ''\<newline>'']"

text \<open>
  The text that \<^verbatim>\<open>_write_summary\<close> builds in \<^verbatim>\<open>summary\<close>, and its flag \<^verbatim>\<open>overall_passed\<close>:
  the loop over \<^verbatim>\<open>self.results\<close> carries both.
\<close>

fun summary_loop :: "(string \<times> bool) list \<Rightarrow> string \<times> bool \<Rightarrow> string \<times> bool" where
  "summary_loop [] (summary, overall_passed) = (summary, overall_passed)"
| "summary_loop ((test, r) # rs) (summary, overall_passed) =
     summary_loop rs
       (summary @ (test @ '': '' @ (if r then ''Passed'' else ''Failed'') @ ''\<newline>''),
        overall_passed \<and> r)"

definition summary_text :: "env \<Rightarrow> test_suite \<Rightarrow> py_error + string" where
  "summary_text e s =
     (let (summary, overall_passed) = summary_loop (results s) (CTS_HEADER, True) in
      case (if thermals s \<noteq> []
            then (case py_max (map snd (thermals s)) of
                    None \<Rightarrow> Inl (ValueError ''max() arg is an empty sequence'')
                  | Some max_temp \<Rightarrow>
                      Inr (summary @ ''\<newline>Max Temperature (C): '' @ str_float e max_temp))
            else Inr summary) of
        Inl err \<Rightarrow> Inl err
      | Inr summary' \<Rightarrow>
          Inr (summary' @ ''\<newline>Overall Compatibility: '' @
               (if overall_passed then ''Passed'' else ''Failed'') @ ''\<newline>''))"

text \<open>
  \<^verbatim>\<open>TestSuite._write_summary\<close>: the thermal block if there are readings, then the file is
  closed, read back, and written again behind the summary to \<^verbatim>\<open>file_path + ".tmp"\<close>, which
  is renamed over the file. The text \<open>old\<close> that \<^verbatim>\<open>file.read()\<close> returns is the content
  the file had when it was opened for reading: nothing writes to it in between, the
  temporary file having another path.
\<close>

definition fs_write :: "(string \<rightharpoonup> string) \<Rightarrow> string \<Rightarrow> string \<Rightarrow> (string \<rightharpoonup> string)" where
  "fs_write f p c = f(p \<mapsto> c)"

text \<open>\<^verbatim>\<open>os.rename(src, dst)\<close> of an existing file: \<open>dst\<close> is replaced, \<open>src\<close> is gone.\<close>

definition os_rename :: "(string \<rightharpoonup> string) \<Rightarrow> string \<Rightarrow> string \<Rightarrow> (string \<rightharpoonup> string)" where
  "os_rename f src dst = (\<lambda>p. if p = src then None else if p = dst then f src else f p)"

definition rewrite_file :: "env \<Rightarrow> unit prog" where
  "rewrite_file e = (\<lambda>(s, w).
     let s1 = s\<lparr>file_open := False\<rparr>;
         temp_path = file_path s @ ''.tmp'' in
     case fs w (file_path s) of
       None \<Rightarrow> (Inl (OSError ''No such file or directory''), (s1, w))
     | Some old \<Rightarrow>
         if \<not> can_write e temp_path
         then (Inl (OSError ''Permission denied''), (s1, w))
         else
           let w1 = w\<lparr>fs := fs_write (fs w) temp_path []\<rparr> in
           (case summary_text e s1 of
              Inl err \<Rightarrow> (Inl err, (s1, w1))
            | Inr summary \<Rightarrow>
                let w2 = w1\<lparr>console := console w1 @ (''\<newline>'' @ summary) @ ''\<newline>''\<rparr>;
                    w3 = w2\<lparr>fs := fs_write (fs w2) temp_path (summary @ ''\<newline>\<newline>'' @ old)\<rparr>;
                    w4 = w3\<lparr>fs := os_rename (fs w3) temp_path (file_path s)\<rparr>
                in (Inr (), (s1, w4))))"

definition write_summary :: "env \<Rightarrow> unit prog" where
  "write_summary e =
     bnd (\<lambda>(s, w). if thermals s \<noteq> [] then write_thermal_summary e (s, w) else ret () (s, w))
       (\<lambda>_. rewrite_file e)"

text \<open>
  The loop of \<^verbatim>\<open>_read_temperatures\<close> over the lines of \<^verbatim>\<open>cat\<close>: each line is parsed by
  \<^verbatim>\<open>float\<close>, divided by 1000 and appended. It stops at the first line \<^verbatim>\<open>float\<close>
  rejects; the exception is swallowed by \<^verbatim>\<open>except Exception: pass\<close>, and the readings
  appended before it stay in \<^verbatim>\<open>temperatures\<close>.
\<close>

fun read_loop :: "(string \<Rightarrow> rat option) \<Rightarrow> string list \<Rightarrow> rat list \<Rightarrow> rat list" where
  "read_loop pf [] temperatures = temperatures"
| "read_loop pf (line # ls) temperatures =
     (case pf line of
        None \<Rightarrow> temperatures
      | Some x \<Rightarrow> read_loop pf ls (temperatures @ [x / 1000]))"

text \<open>
  \<^verbatim>\<open>TestSuite._read_temperatures\<close>. An exception of \<^verbatim>\<open>Popen\<close> or of reading the pipe
  is swallowed like one of \<^verbatim>\<open>float\<close>, so both kinds of run leave the readings of the
  lines that were delivered.
\<close>

definition read_temperatures :: "env \<Rightarrow> string \<Rightarrow> unit prog" where
  "read_temperatures e current_test = (\<lambda>(s, w).
     let command = Shell ''cat /sys/class/apex/apex_*/temp'';
         w1 = w\<lparr>spawned := spawned w @ [command]\<rparr>;
         temperatures =
           (case popen e (length (spawned w)) command of
              Raised ls err \<Rightarrow> read_loop (py_float e) ls []
            | Exited ls rc \<Rightarrow> read_loop (py_float e) ls [])
     in if temperatures \<noteq> []
        then (case py_max temperatures of
                None \<Rightarrow> (Inl (ValueError ''max() arg is an empty sequence''), (s, w1))
              | Some m \<Rightarrow>
                  (Inr (), (s\<lparr>thermals := dict_set (thermals s) current_test m\<rparr>, w1)))
        else (Inr (), (s, w1)))"

text \<open>
  \<^verbatim>\<open>TestSuite.run_test\<close>. The value of the \<^verbatim>\<open>try\<close> statement is \<open>Some rc\<close> with the
  exit code when the block ends normally, and \<open>None\<close> when the handler ran, which
  returns from the method. \<^verbatim>\<open>test[0]\<close> of an empty list raises \<^verbatim>\<open>IndexError\<close>.
\<close>

definition run_test :: "env \<Rightarrow> string list \<Rightarrow> unit prog" where
  "run_test e test =
     (case test of
        [] \<Rightarrow> throw (IndexError ''list index out of range'')
      | current_test # args \<Rightarrow>
          bnd (do_all [
                 file_print (''\<newline>'' @ SECTION_HEADER),
                 file_print (current_test @ ''\<newline>''),
                 file_print SECTION_HEADER])
            (\<lambda>_. bnd (try_except
                        (bnd (popen_stream e (Exec ((cwd e @ ''/'' @ current_test) # args))
                                file_print)
                             (\<lambda>rc. ret (Some rc)))
                        (\<lambda>err. bnd (file_print (str_error err @ ''\<newline>''))
                                 (\<lambda>_. bnd (set_result current_test False) (\<lambda>_. ret None))))
               (\<lambda>r. case r of
                      None \<Rightarrow> ret ()
                    | Some returncode \<Rightarrow>
                        bnd (\<lambda>(s, w). if pci s \<and> sys_platform e = ''linux''
                                       then read_temperatures e current_test (s, w)
                                       else ret () (s, w))
                          (\<lambda>_. if returncode \<noteq> 0
                                then set_result current_test False
                                else set_result current_test True))))"

text \<open>The body of the loop of \<^verbatim>\<open>detect_tpus\<close> for one line of \<^verbatim>\<open>lstpu\<close>.\<close>

definition detect_line :: "string \<Rightarrow> unit prog" where
  "detect_line line = (\<lambda>(s, w).
     let s1 = (if \<not> pci s \<and> py_in ''PCI'' line then s\<lparr>pci := True\<rparr> else s);
         s2 = (if \<not> usb s1 \<and> py_in ''USB'' line then s1\<lparr>usb := True\<rparr> else s1);
         s3 = s2\<lparr>tpus := tpus s2 + 1\<rparr>
     in file_print line (s3, w))"

text \<open>\<^verbatim>\<open>TestSuite.detect_tpus\<close>; the value is \<^verbatim>\<open>self.tpus\<close>.\<close>

definition detect_tpus :: "env \<Rightarrow> nat prog" where
  "detect_tpus e =
     (let test = ''lstpu'';
          test_path = ospath_join (cwd e) test in
      bnd (do_all [
             file_print (''\<newline>'' @ SECTION_HEADER),
             file_print ''Detected TPUs (lstpu)\<newline>'',
             file_print SECTION_HEADER,
             try_except
               (bnd (popen_stream e (Exec [test_path]) detect_line) (\<lambda>_. ret ()))
               (\<lambda>err. file_print (str_error err @ ''\<newline>'')),
             (\<lambda>(s, w). if tpus s \<noteq> 0
                       then set_result test True (s, w)
                       else bnd (set_result test False)
                              (\<lambda>_. file_print ''No TPUs detected\<newline>'') (s, w))])
        (\<lambda>_. (\<lambda>(s, w). (Inr (tpus s), (s, w)))))"

text \<open>\<^verbatim>\<open>TestSuite.print_system_info\<close>.\<close>

definition print_system_info :: "env \<Rightarrow> unit prog" where
  "print_system_info e =
     do_all [
       file_print ''\<newline>-----------------------------------------------------\<newline>'',
       file_print ''System Info\<newline>'',
       file_print ''-----------------------------------------------------\<newline>'',
       file_print (platform_platform e @ ''\<newline>''),
       (\<lambda>(s, w).
          if sys_platform e = ''linux''
          then (if pci s
                then do_all [
                       run_linux_system_command e ''TPU Kernel Messages'' [''dmesg''] ''apex'',
                       run_linux_system_command e ''PCI Info''
                         [''lspci'', ''-vvv'', ''-d 1ac1:089a''] []] (s, w)
                else if usb s
                then do_all [
                       run_linux_system_command e ''USB Devices'' [''lsusb''] [],
                       run_linux_system_command e ''USB Tree'' [''lsusb'', ''-t''] [],
                       run_linux_system_command e ''USB Detailed Info (TPU in standard mode)''
                         [''lsusb'', ''-v'', ''-d 18d1:9302''] [],
                       run_linux_system_command e ''USB Detailed Info (TPU in DFU mode)''
                         [''lsusb'', ''-v'', ''-d 1a6e:089a''] []] (s, w)
                else ret () (s, w))
          else ret () (s, w))]"

subsection \<open>Construction and the with statement\<close>

text \<open>
  \<^verbatim>\<open>TestSuite.__init__\<close>: \<^verbatim>\<open>open(file_path, "w")\<close> creates the file, or empties the one
  that is there.
\<close>

definition init_suite :: "env \<Rightarrow> string \<Rightarrow> world \<Rightarrow> py_error + st" where
  "init_suite e path w =
     (if can_write e path
      then Inr (\<lparr>results = [], file_path = path, file_open = True, tpus = 0,
                 pci = False, usb = False, thermals = []\<rparr>,
                w\<lparr>fs := fs_write (fs w) path []\<rparr>)
      else Inl (OSError ''Permission denied''))"

text \<open>
  \<^verbatim>\<open>with TestSuite(path) as cts: body\<close>. \<^verbatim>\<open>__exit__\<close> calls \<^verbatim>\<open>_write_summary\<close> whether
  the body ended normally or by an exception, and returns \<^verbatim>\<open>None\<close>, so an exception of
  the body goes on after the summary; an exception of \<^verbatim>\<open>_write_summary\<close> itself
  replaces it.
\<close>

definition with_suite :: "env \<Rightarrow> string \<Rightarrow> unit prog \<Rightarrow> world \<Rightarrow> (py_error + unit) \<times> world" where
  "with_suite e path body w =
     (case init_suite e path w of
        Inl err \<Rightarrow> (Inl err, w)
      | Inr t0 \<Rightarrow>
          (case body t0 of
             (Inl err, t1) \<Rightarrow>
               (case write_summary e t1 of
                  (Inl err2, (s2, w2)) \<Rightarrow> (Inl err2, w2)
                | (Inr u, (s2, w2)) \<Rightarrow> (Inl err, w2))
           | (Inr u, t1) \<Rightarrow>
               (case write_summary e t1 of (r, (s2, w2)) \<Rightarrow> (r, w2))))"

subsection \<open>The CLI driver\<close>

text \<open>
  The parsed command line: \<^verbatim>\<open>args.test_name\<close> and \<^verbatim>\<open>args.output\<close> (\<open>output\<close> is a
  keyword of Isabelle, hence \<open>output_arg\<close>).
\<close>

record args =
  test_name :: string
  output_arg :: string

text \<open>
  The test data step of \<^verbatim>\<open>main\<close>: nothing when \<^verbatim>\<open>test_data\<close> is a directory; else the
  download, with its two console messages, where any exception ends the run.
\<close>

definition ensure_test_data :: "env \<Rightarrow> world \<Rightarrow> (py_error + unit) \<times> world" where
  "ensure_test_data e w =
     (if isdir_test_data e then (Inr (), w)
      else
        let w1 = w\<lparr>console := console w @ ''Test data not found, downloading...\<newline>''\<rparr>;
            w2 = w1\<lparr>console := console w1 @ ''Download complete, extracting...\<newline>''\<rparr>
        in (case fetch e of
              DownloadFailed err \<Rightarrow> (Inl err, w1)
            | ExtractFailed err \<Rightarrow> (Inl err, w2)
            | FetchOk \<Rightarrow> (Inr (), w2)))"

text \<open>
  The chain of \<^verbatim>\<open>if args.test_name == ...\<close> statements of \<^verbatim>\<open>main\<close>, for a value \<open>n\<close> of
  its variable \<^verbatim>\<open>tpus\<close>.
\<close>

definition dispatch :: "env \<Rightarrow> nat \<Rightarrow> string \<Rightarrow> unit prog" where
  "dispatch e n name =
     do_all [
       (if name = ''tflite_utils_test''
        then run_test e [''tflite_utils_test''] else ret ()),
       (if name = ''inference_stress_test''
        then run_test e [''inference_stress_test'',
                         ''--stress_test_runs=10000'', ''--stress_with_sleep_test_runs=200'']
        else ret ()),
       (if name = ''model_loading_stress_test''
        then run_test e [''model_loading_stress_test'', ''--stress_test_runs=50'']
        else ret ()),
       (if name = ''inference_repeatability_test''
        then run_test e [''inference_repeatability_test'',
                         ''--stress_test_runs=1000'', ''--gtest_repeat=20'']
        else ret ()),
       (if name = ''classification_models_test''
        then run_test e [''classification_models_test'', ''--gtest_repeat=10'',
                         ''--gtest_filter=-*tfhub_tf2_resnet_50_imagenet_ptq*'']
        else ret ()),
       (if name = ''detection_models_test''
        then run_test e [''detection_models_test'', ''--gtest_repeat=100''] else ret ()),
       (if name = ''segmentation_models_test''
        then run_test e [''segmentation_models_test'', ''--gtest_repeat=100''] else ret ()),
       (if n > 1 \<and> name = ''multiple_tpus_inference_stress_test''
        then run_test e [''multiple_tpus_inference_stress_test'', ''--num_inferences=5000'']
        else ret ()),
       (if name = ''models_benchmark''
        then run_test e [''models_benchmark'', ''--benchmark_color=false''] else ret ())]"

text \<open>
  The body of the \<^verbatim>\<open>with\<close> statement of \<^verbatim>\<open>main\<close>. The call of \<^verbatim>\<open>detect_tpus\<close> is commented
  out in the source, and \<^verbatim>\<open>tpus = 1\<close> stands in its place.
\<close>

definition main_body :: "env \<Rightarrow> string \<Rightarrow> unit prog" where
  "main_body e name =
     (let tpus = 1 in
      bnd (print_system_info e) (\<lambda>_. dispatch e tpus name))"

text \<open>\<^verbatim>\<open>main\<close>, from the parsed arguments on.\<close>

definition main :: "env \<Rightarrow> args \<Rightarrow> world \<Rightarrow> (py_error + unit) \<times> world" where
  "main e a w =
     (let output_file = ospath_join (cwd e) (test_name a @ ''.txt'') in
      case ensure_test_data e w of
        (Inl err, w1) \<Rightarrow> (Inl err, w1)
      | (Inr u, w1) \<Rightarrow> with_suite e output_file (main_body e (test_name a)) w1)"

subsection \<open>Definitions used to state the properties\<close>

text \<open>
  The world after \<^verbatim>\<open>_file_print(m)\<close> on an open suite: \<open>m\<close> is at the end of the file and
  of the console.
\<close>

definition printed :: "test_suite \<Rightarrow> string \<Rightarrow> world \<Rightarrow> world" where
  "printed s m w = w\<lparr>fs := fs_append (fs w) (file_path s) m, console := console w @ m\<rparr>"

text \<open>
  The summary as the specification words it: the banner, one line per recorded test, the
  maximum temperature line when there are readings, and the overall line. The block of
  temperatures per test is what finalization adds to the captured output before it reads
  it back.
\<close>

definition result_line :: "string \<times> bool \<Rightarrow> string" where
  "result_line tr = fst tr @ '': '' @ (if snd tr then ''Passed'' else ''Failed'') @ ''\<newline>''"

definition max_temperature_line :: "env \<Rightarrow> (string \<times> rat) list \<Rightarrow> string" where
  "max_temperature_line e th =
     (if th = [] then []
      else ''\<newline>Max Temperature (C): '' @ str_float e (Max (snd ` set th)))"

definition overall_line :: "(string \<times> bool) list \<Rightarrow> string" where
  "overall_line rs =
     ''\<newline>Overall Compatibility: '' @
     (if list_all snd rs then ''Passed'' else ''Failed'') @ ''\<newline>''"

definition spec_summary :: "env \<Rightarrow> test_suite \<Rightarrow> string" where
  "spec_summary e s =
     CTS_HEADER @ concat (map result_line (results s)) @
     max_temperature_line e (thermals s) @ overall_line (results s)"

definition thermal_block :: "env \<Rightarrow> (string \<times> rat) list \<Rightarrow> string" where
  "thermal_block e th =
     (if th = [] then []
      else ''\<newline>'' @ SECTION_HEADER @ ''Temperatures During Tests\<newline>'' @ SECTION_HEADER @
           concat (map (\<lambda>(test, temp). test @ '': '' @ str_float e temp @ ''\<newline>'') th) @
           ''\<newline>'')"

subsection \<open>Sample data for the instances\<close>

text \<open>
  An environment, a world and a suite on which the theorems below are instantiated.
  \<open>sample_float\<close> and \<open>sample_str\<close> give the values of \<^verbatim>\<open>float\<close> and \<^verbatim>\<open>str\<close> on the few
  arguments the samples use; \<^verbatim>\<open>float\<close> rejects the error line of \<^verbatim>\<open>cat\<close>.
\<close>

definition sample_float :: "string \<Rightarrow> rat option" where
  "sample_float line =
     (if line = ''45000\<newline>'' then Some 45000
      else if line = ''52000\<newline>'' then Some 52000
      else None)"

definition sample_str :: "rat \<Rightarrow> string" where
  "sample_str x =
     (if x = 45 then ''45.0'' else if x = 52 then ''52.0''
      else if x = 83 / 2 then ''41.5'' else ''?'')"

definition sample_popen :: "nat \<Rightarrow> cmd \<Rightarrow> proc_run" where
  "sample_popen n c =
     (case c of
        Exec argv \<Rightarrow>
          (if argv = [''/home/cts/tflite_utils_test'']
           then Exited [''[  PASSED  ] 4 tests.\<newline>''] 0
           else if argv = [''/home/cts/detection_models_test'', ''--gtest_repeat=100'']
           then Exited [''[  FAILED  ] 1 test.\<newline>''] 1
           else if argv = [''/home/cts/lstpu'']
           then Exited [''0 PCI 0000:01:00.0\<newline>'', ''1 USB 2-1\<newline>''] 0
           else Raised [] (OSError ''[Errno 2] No such file or directory''))
      | Shell line \<Rightarrow>
          Exited [''45000\<newline>'', ''52000\<newline>'',
                  ''cat: /sys/class/apex/apex_2/temp: Permission denied\<newline>''] 1)"

definition sample_env :: env where
  "sample_env =
     \<lparr>cwd = ''/home/cts'', sys_platform = ''linux'', platform_platform = ''Linux-5.10'',
      popen = sample_popen, can_write = (\<lambda>p. True), isdir_test_data = True,
      fetch = FetchOk, py_float = sample_float, str_float = sample_str\<rparr>"

definition sample_world :: world where
  "sample_world =
     \<lparr>fs = [''/home/cts/cts.txt'' \<mapsto> ''raw output\<newline>''], console = [], spawned = []\<rparr>"

definition sample_suite :: test_suite where
  "sample_suite =
     \<lparr>results = [(''lstpu'', False), (''tflite_utils_test'', True)],
      file_path = ''/home/cts/cts.txt'', file_open = True, tpus = 0, pci = False, usb = False,
      thermals = [(''detection_models_test'', 83 / 2), (''classification_models_test'', 52)]\<rparr>"

subsection \<open>Definitions for the process runner and the thermal sampler\<close>

text \<open>The lines a run delivered, whichever way it ended.\<close>

fun run_lines :: "proc_run \<Rightarrow> string list" where
  "run_lines (Raised ls err) = ls"
| "run_lines (Exited ls rc) = ls"

text \<open>
  The readings in degrees of the lines up to the first one that \<^verbatim>\<open>float\<close> rejects.
\<close>

fun readings_before_failure :: "(string \<Rightarrow> rat option) \<Rightarrow> string list \<Rightarrow> rat list" where
  "readings_before_failure pf [] = []"
| "readings_before_failure pf (line # ls) =
     (case pf line of
        None \<Rightarrow> []
      | Some x \<Rightarrow> (x / 1000) # readings_before_failure pf ls)"

text \<open>The command of the thermal sampler, and the heading \<^verbatim>\<open>run_test\<close> prints for a test.\<close>

definition cat_temp :: cmd where
  "cat_temp = Shell ''cat /sys/class/apex/apex_*/temp''"

definition test_banner :: "string \<Rightarrow> string" where
  "test_banner name = ''\<newline>'' @ SECTION_HEADER @ name @ ''\<newline>'' @ SECTION_HEADER"


subsection \<open>Definitions for the hardware detector\<close>

text \<open>
  The heading \<^verbatim>\<open>detect_tpus\<close> prints; the suite after the loop has seen the lines \<open>ls\<close>;
  and the text the handler prints when the run ended by an exception.
\<close>

definition detect_banner :: string where
  "detect_banner = ''\<newline>'' @ SECTION_HEADER @ ''Detected TPUs (lstpu)\<newline>'' @ SECTION_HEADER"

definition detected :: "string list \<Rightarrow> test_suite \<Rightarrow> test_suite" where
  "detected ls s =
     s\<lparr>pci := pci s \<or> (\<exists>l \<in> set ls. py_in ''PCI'' l),
       usb := usb s \<or> (\<exists>l \<in> set ls. py_in ''USB'' l),
       tpus := tpus s + length ls\<rparr>"

fun raised_text :: "proc_run \<Rightarrow> string" where
  "raised_text (Raised ls err) = str_error err @ ''\<newline>''"
| "raised_text (Exited ls rc) = []"

subsection \<open>Definitions for the CLI driver\<close>

text \<open>
  The dispatch table as the specification gives it: test name, and the fixed arguments
  of its executable, which has the name of the test.
\<close>

definition dispatch_table :: "(string \<times> string list) list" where
  "dispatch_table =
     [(''tflite_utils_test'', []),
      (''inference_stress_test'',
         [''--stress_test_runs=10000'', ''--stress_with_sleep_test_runs=200'']),
      (''model_loading_stress_test'', [''--stress_test_runs=50'']),
      (''inference_repeatability_test'', [''--stress_test_runs=1000'', ''--gtest_repeat=20'']),
      (''classification_models_test'',
         [''--gtest_repeat=10'', ''--gtest_filter=-*tfhub_tf2_resnet_50_imagenet_ptq*'']),
      (''detection_models_test'', [''--gtest_repeat=100'']),
      (''segmentation_models_test'', [''--gtest_repeat=100'']),
      (''multiple_tpus_inference_stress_test'', [''--num_inferences=5000'']),
      (''models_benchmark'', [''--benchmark_color=false''])]"

text \<open>
  The row chosen for a test name when \<open>n\<close> accelerators count as detected: the row whose
  name is equal to the selector, and for the multi-device stress test only if \<open>n\<close> is
  greater than one.
\<close>

definition selected :: "nat \<Rightarrow> string \<Rightarrow> (string \<times> string list) option" where
  "selected n name =
     (case map_of dispatch_table name of
        None \<Rightarrow> None
      | Some args \<Rightarrow>
          if name = ''multiple_tpus_inference_stress_test'' \<and> \<not> 1 < n then None
          else Some (name, args))"

text \<open>What \<^verbatim>\<open>print_system_info\<close> prints when neither bus flag is set.\<close>

definition sysinfo_text :: "env \<Rightarrow> string" where
  "sysinfo_text e =
     ''\<newline>-----------------------------------------------------\<newline>'' @
     ''System Info\<newline>'' @
     ''-----------------------------------------------------\<newline>'' @
     platform_platform e @ ''\<newline>''"

text \<open>
  The suite \<^verbatim>\<open>__init__\<close> makes; the path of the output file in \<^verbatim>\<open>main\<close>; what \<^verbatim>\<open>run_test\<close>
  sends to the sink for a run; and the result it records for it.
\<close>

definition new_suite :: "string \<Rightarrow> test_suite" where
  "new_suite path =
     \<lparr>results = [], file_path = path, file_open = True, tpus = 0,
      pci = False, usb = False, thermals = []\<rparr>"

definition output_file :: "env \<Rightarrow> args \<Rightarrow> string" where
  "output_file e a = ospath_join (cwd e) (test_name a @ ''.txt'')"

definition test_output :: "string \<Rightarrow> proc_run \<Rightarrow> string" where
  "test_output exe r = test_banner exe @ concat (run_lines r) @ raised_text r"

fun test_passed :: "proc_run \<Rightarrow> bool" where
  "test_passed (Raised ls err) = False"
| "test_passed (Exited ls rc) = (rc = 0)"

subsection \<open>Definitions for a whole run of the driver\<close>

text \<open>
  What one run of \<^verbatim>\<open>main\<close> does, read off the dispatch table for \<^verbatim>\<open>tpus = 1\<close>: the test
  it starts, if any, with its command and its run; the results it records; the text it
  captures in the output file before the summary; the commands it starts; and the
  summary it puts in front.
\<close>

definition main_run :: "env \<Rightarrow> args \<Rightarrow> world \<Rightarrow> (string \<times> cmd \<times> proc_run) option" where
  "main_run e a w =
     (case selected 1 (test_name a) of
        None \<Rightarrow> None
      | Some (exe, args) \<Rightarrow>
          Some (exe, Exec ((cwd e @ ''/'' @ exe) # args),
                popen e (length (spawned w)) (Exec ((cwd e @ ''/'' @ exe) # args))))"

definition main_results :: "env \<Rightarrow> args \<Rightarrow> world \<Rightarrow> (string \<times> bool) list" where
  "main_results e a w =
     (case main_run e a w of None \<Rightarrow> [] | Some (exe, c, r) \<Rightarrow> [(exe, test_passed r)])"

definition main_text :: "env \<Rightarrow> args \<Rightarrow> world \<Rightarrow> string" where
  "main_text e a w =
     sysinfo_text e @
     (case main_run e a w of None \<Rightarrow> [] | Some (exe, c, r) \<Rightarrow> test_output exe r)"

definition main_cmds :: "env \<Rightarrow> args \<Rightarrow> world \<Rightarrow> cmd list" where
  "main_cmds e a w = (case main_run e a w of None \<Rightarrow> [] | Some (exe, c, r) \<Rightarrow> [c])"

definition main_summary :: "env \<Rightarrow> args \<Rightarrow> world \<Rightarrow> string" where
  "main_summary e a w =
     CTS_HEADER @ concat (map result_line (main_results e a w)) @
     overall_line (main_results e a w)"

text \<open>Command lines for the instances: a test that runs, one whose executable is
  missing, and a selector that is an absolute path.\<close>

definition sample_args :: args where
  "sample_args = \<lparr>test_name = ''tflite_utils_test'', output_arg = ''cts.txt''\<rparr>"

definition missing_args :: args where
  "missing_args = \<lparr>test_name = ''models_benchmark'', output_arg = ''cts.txt''\<rparr>"

definition absolute_args :: args where
  "absolute_args = \<lparr>test_name = ''/tmp/x'', output_arg = ''cts.txt''\<rparr>"

section \<open>Properties\<close>

subsection \<open>Sequencing and the sink\<close>

lemma fs_append_nil: "fs_append f p [] = f"
  by (auto simp: fs_append_def split: option.splits)

lemma fs_append_append: "fs_append (fs_append f p a) p b = fs_append f p (a @ b)"
  by (auto simp: fs_append_def split: option.splits)

lemma printed_nil: "printed s [] w = w"
  by (simp add: printed_def fs_append_nil)

lemma printed_printed: "printed s b (printed s a w) = printed s (a @ b) w"
  by (simp add: printed_def fs_append_append)

lemma file_print_open: "file_open s \<Longrightarrow> file_print m (s, w) = (Inr (), (s, printed s m w))"
  by (simp add: file_print_def printed_def)

lemma file_print_closed:
  "\<not> file_open s \<Longrightarrow>
   file_print m (s, w) = (Inl (ValueError ''I/O operation on closed file.''), (s, w))"
  by (simp add: file_print_def)

lemma for_each_file_print:
  "file_open s \<Longrightarrow> for_each file_print ls (s, w) = (Inr (), (s, printed s (concat ls) w))"
proof (induction ls arbitrary: w)
  case Nil
  then show ?case by (simp add: ret_def printed_nil)
next
  case (Cons l ls)
  then show ?case by (simp add: bnd_def file_print_open printed_printed)
qed

lemmas prog_simps = bnd_def do_all.simps for_each.simps ret_def throw_def try_except_def
  prod.case sum.case

subsection \<open>The summary text\<close>

lemma summary_loop_eq:
  "summary_loop rs (acc, b) = (acc @ concat (map result_line rs), b \<and> list_all snd rs)"
  by (induction rs arbitrary: acc b) (auto simp: result_line_def)

lemma foldl_max: "foldl (\<lambda>m y. if m < y then y else m) x xs = Max (set (x # xs))"
proof (induction xs arbitrary: x)
  case Nil
  then show ?case by simp
next
  case (Cons y ys)
  have "(if x < y then y else x) = max x y" by (auto simp: max_def)
  then have "foldl (\<lambda>m y. if m < y then y else m) x (y # ys) = Max (set (max x y # ys))"
    using Cons.IH [of "max x y"] by simp
  also have "\<dots> = Max (set (x # y # ys))"
    by (cases "ys = []") (simp_all add: max.assoc)
  finally show ?case .
qed

lemma py_max_Max: "xs \<noteq> [] \<Longrightarrow> py_max xs = Some (Max (set xs))"
  by (cases xs) (simp_all only: py_max.simps foldl_max, simp)

lemma summary_text_eq: "summary_text e s = Inr (spec_summary e s)"
  by (cases "thermals s = []")
     (simp_all add: summary_text_def summary_loop_eq spec_summary_def max_temperature_line_def
        overall_line_def py_max_Max)

subsection \<open>Finalization\<close>

lemma for_each_thermals:
  "file_open s \<Longrightarrow>
   for_each (\<lambda>(test, temp). file_print (test @ '': '' @ str_float e temp @ ''\<newline>'')) th (s, w)
   = (Inr (), (s, printed s
        (concat (map (\<lambda>(test, temp). test @ '': '' @ str_float e temp @ ''\<newline>'') th)) w))"
proof (induction th arbitrary: w)
  case Nil
  then show ?case by (simp add: ret_def printed_nil)
next
  case (Cons a th)
  then show ?case by (cases a) (simp add: bnd_def file_print_open printed_printed)
qed

lemma write_thermal_summary_run:
  assumes "file_open s" and "thermals s \<noteq> []"
  shows "write_thermal_summary e (s, w) = (Inr (), (s, printed s (thermal_block e (thermals s)) w))"
proof -
  have "write_thermal_summary e (s, w) =
          (Inr (), (s, printed s ((''\<newline>'' @ SECTION_HEADER) @
             (''Temperatures During Tests'' @ ''\<newline>'') @ SECTION_HEADER @
             concat (map (\<lambda>(test, temp). test @ '': '' @ str_float e temp @ ''\<newline>'')
                       (thermals s)) @ ''\<newline>'') w))"
    unfolding write_thermal_summary_def using assms(1)
    by (simp only: prog_simps file_print_open for_each_thermals printed_printed append_assoc)
  then show ?thesis using assms(2) by (simp add: thermal_block_def)
qed


lemma rewrite_file_run:
  assumes "fs w (file_path s) = Some old" and "can_write e (file_path s @ ''.tmp'')"
  shows "rewrite_file e (s, w) =
           (Inr (), (s\<lparr>file_open := False\<rparr>,
              w\<lparr>console := console w @ (''\<newline>'' @ spec_summary e s) @ ''\<newline>'',
                fs := (\<lambda>p. if p = file_path s @ ''.tmp'' then None
                          else if p = file_path s then Some (spec_summary e s @ ''\<newline>\<newline>'' @ old)
                          else fs w p)\<rparr>))"
proof -
  have sm: "summary_text e (s\<lparr>file_open := False\<rparr>) = Inr (spec_summary e s)"
    by (simp add: summary_text_eq spec_summary_def)
  have "os_rename (fs_write (fs_write (fs w) (file_path s @ ''.tmp'') [])
                     (file_path s @ ''.tmp'') (spec_summary e s @ ''\<newline>\<newline>'' @ old))
          (file_path s @ ''.tmp'') (file_path s)
        = (\<lambda>p. if p = file_path s @ ''.tmp'' then None
                else if p = file_path s then Some (spec_summary e s @ ''\<newline>\<newline>'' @ old)
                else fs w p)"
    by (rule ext) (simp add: os_rename_def fs_write_def)
  then show ?thesis
    using assms by (simp add: rewrite_file_def Let_def sm del: append.simps)
qed

lemma printed_fs: "fs w p = Some c \<Longrightarrow> fs (printed s m w) p = Some (if p = file_path s then c @ m else c)"
  by (auto simp: printed_def fs_append_def split: option.splits)

lemma write_summary_run:
  assumes "file_open s" and "fs w (file_path s) = Some captured"
    and "can_write e (file_path s @ ''.tmp'')"
  shows "write_summary e (s, w) =
           (Inr (), (s\<lparr>file_open := False\<rparr>,
              w\<lparr>console := console w @ thermal_block e (thermals s) @
                              (''\<newline>'' @ spec_summary e s) @ ''\<newline>'',
                fs := (\<lambda>p. if p = file_path s @ ''.tmp'' then None
                          else if p = file_path s
                          then Some (spec_summary e s @ ''\<newline>\<newline>'' @
                                     captured @ thermal_block e (thermals s))
                          else fs w p)\<rparr>))"
proof (cases "thermals s = []")
  case True
  then have tb: "thermal_block e (thermals s) = []" by (simp add: thermal_block_def)
  have "write_summary e (s, w) = rewrite_file e (s, w)"
    using True by (simp add: write_summary_def bnd_def ret_def)
  then show ?thesis
    using rewrite_file_run [OF assms(2,3)] by (simp add: tb cong: if_cong)
next
  case False
  let ?w1 = "printed s (thermal_block e (thermals s)) w"
  have f1: "fs ?w1 (file_path s) = Some (captured @ thermal_block e (thermals s))"
    using assms(2) by (simp add: printed_fs)
  have "write_summary e (s, w) = rewrite_file e (s, ?w1)"
    using False write_thermal_summary_run [OF assms(1) False]
    by (simp add: write_summary_def bnd_def)
  also have "\<dots> = (Inr (), (s\<lparr>file_open := False\<rparr>,
              ?w1\<lparr>console := console ?w1 @ (''\<newline>'' @ spec_summary e s) @ ''\<newline>'',
                fs := (\<lambda>p. if p = file_path s @ ''.tmp'' then None
                          else if p = file_path s
                          then Some (spec_summary e s @ ''\<newline>\<newline>'' @
                                     captured @ thermal_block e (thermals s))
                          else fs ?w1 p)\<rparr>))"
    by (rule rewrite_file_run [OF f1 assms(3)])
  also have "\<dots> = (Inr (), (s\<lparr>file_open := False\<rparr>,
              w\<lparr>console := console w @ thermal_block e (thermals s) @
                              (''\<newline>'' @ spec_summary e s) @ ''\<newline>'',
                fs := (\<lambda>p. if p = file_path s @ ''.tmp'' then None
                          else if p = file_path s
                          then Some (spec_summary e s @ ''\<newline>\<newline>'' @
                                     captured @ thermal_block e (thermals s))
                          else fs w p)\<rparr>))"
    by (auto simp: printed_def fs_append_def fun_eq_iff split: option.splits simp del: append.simps)
  finally show ?thesis .
qed


subsection \<open>Construction of the aggregator\<close>

text \<open>
  C10. Constructing the aggregator opens the file at the given path in write mode: when
  the file can be opened, it is empty afterwards whatever it held before, every other
  file is untouched, and the new suite is open with no results and no readings. Content
  that was at the path has no effect on the construction, nor on a whole run under the
  \<^verbatim>\<open>with\<close> statement: a run with the same path loses the file of the run before it.
\<close>

theorem init_suite_truncates:
  "can_write e p \<Longrightarrow>
   (\<exists>s w'. init_suite e p w = Inr (s, w') \<and> fs w' p = Some [] \<and>
      file_path s = p \<and> file_open s \<and> results s = [] \<and> thermals s = [] \<and>
      (\<forall>q. q \<noteq> p \<longrightarrow> fs w' q = fs w q)) \<and>
   (\<forall>old. init_suite e p (w\<lparr>fs := fs_write (fs w) p old\<rparr>) = init_suite e p w) \<and>
   (\<forall>old body. with_suite e p body (w\<lparr>fs := fs_write (fs w) p old\<rparr>)
                 = with_suite e p body w)"
  by (simp add: init_suite_def with_suite_def fs_write_def)

theorem init_suite_truncates_witness:
  "can_write sample_env ''/home/cts/cts.txt'' \<and>
   fs sample_world ''/home/cts/cts.txt'' = Some ''raw output\<newline>'' \<and>
   (\<exists>s w'. init_suite sample_env ''/home/cts/cts.txt'' sample_world = Inr (s, w') \<and>
      fs w' ''/home/cts/cts.txt'' = Some [])"
proof -
  have c: "can_write sample_env ''/home/cts/cts.txt''"
    by (simp add: sample_env_def)
  from init_suite_truncates [OF c, of sample_world]
  obtain s w' where "init_suite sample_env ''/home/cts/cts.txt'' sample_world = Inr (s, w')"
    and "fs w' ''/home/cts/cts.txt'' = Some []"
    by blast
  then show ?thesis
    using c by (auto simp: sample_world_def)
qed

subsection \<open>The results dictionary\<close>



lemma dict_set_new: "k \<notin> fst ` set d \<Longrightarrow> dict_set d k v = d @ [(k, v)]"
  by (induction d) auto

lemma record_in_order:
  "distinct (map fst rs) \<Longrightarrow> fst ` set d \<inter> fst ` set rs = {} \<Longrightarrow>
   foldl (\<lambda>d (k, v). dict_set d k v) d rs = d @ rs"
proof (induction rs arbitrary: d)
  case Nil
  then show ?case by simp
next
  case (Cons r rs)
  obtain k v where r: "r = (k, v)" by (cases r)
  have new: "k \<notin> fst ` set d" using Cons.prems(2) r by auto
  have "fst ` set (d @ [(k, v)]) \<inter> fst ` set rs = {}"
    using Cons.prems r by (auto simp: image_iff)
  moreover have "distinct (map fst rs)" using Cons.prems(1) by simp
  ultimately have "foldl (\<lambda>d (k, v). dict_set d k v) (d @ [(k, v)]) rs = (d @ [(k, v)]) @ rs"
    by (rule Cons.IH [rotated])
  then show ?case using new r by (simp add: dict_set_new)
qed

subsection \<open>The finalized file\<close>



subsection \<open>The maximum temperature line\<close>



subsection \<open>The thermal sampler\<close>

lemma read_loop_eq: "read_loop pf ls acc = acc @ readings_before_failure pf ls"
  by (induction ls arbitrary: acc) (auto split: option.splits)

lemma read_temperatures_run:
  "read_temperatures e t (s, w) =
     (Inr (),
      (let temps = readings_before_failure (py_float e)
                     (run_lines (popen e (length (spawned w)) cat_temp))
       in if temps = [] then s
          else s\<lparr>thermals := dict_set (thermals s) t (Max (set temps))\<rparr>),
      w\<lparr>spawned := spawned w @ [cat_temp]\<rparr>)"
proof -
  let ?run = "popen e (length (spawned w)) cat_temp"
  let ?temps = "readings_before_failure (py_float e) (run_lines ?run)"
  have t: "(case ?run of Raised ls err \<Rightarrow> read_loop (py_float e) ls []
            | Exited ls rc \<Rightarrow> read_loop (py_float e) ls []) = ?temps"
    by (cases ?run) (simp_all add: read_loop_eq)
  show ?thesis
  proof (cases "?temps = []")
    case True
    then show ?thesis
      using t by (simp add: read_temperatures_def Let_def cat_temp_def)
  next
    case False
    then show ?thesis
      using t py_max_Max [OF False]
      by (simp add: read_temperatures_def Let_def cat_temp_def)
  qed
qed

lemma read_temperatures_shape:
  "\<exists>th. read_temperatures e t (s, w) =
     (Inr (), (s\<lparr>thermals := th\<rparr>, w\<lparr>spawned := spawned w @ [cat_temp]\<rparr>))"
proof (cases "readings_before_failure (py_float e)
                (run_lines (popen e (length (spawned w)) cat_temp)) = []")
  case True
  then have "read_temperatures e t (s, w) =
     (Inr (), (s\<lparr>thermals := thermals s\<rparr>, w\<lparr>spawned := spawned w @ [cat_temp]\<rparr>))"
    by (simp add: read_temperatures_run)
  then show ?thesis by blast
next
  case False
  then have "read_temperatures e t (s, w) =
     (Inr (), (s\<lparr>thermals := dict_set (thermals s) t
                  (Max (set (readings_before_failure (py_float e)
                     (run_lines (popen e (length (spawned w)) cat_temp)))))\<rparr>,
               w\<lparr>spawned := spawned w @ [cat_temp]\<rparr>))"
    by (simp add: read_temperatures_run Let_def)
  then show ?thesis by blast
qed


lemma readings_first_fails:
  "pf l = None \<Longrightarrow> readings_before_failure pf (l # ls) = []"
  by simp




subsection \<open>The process runner\<close>

lemma printed_spawned [simp]: "spawned (printed s m w) = spawned w"
  by (simp add: printed_def)

lemma printed_upd_spawned:
  "printed s m (w\<lparr>spawned := x\<rparr>) = (printed s m w)\<lparr>spawned := x\<rparr>"
  by (simp add: printed_def)

lemma run_test_banner:
  "file_open s \<Longrightarrow>
   do_all [file_print (''\<newline>'' @ SECTION_HEADER), file_print (name @ ''\<newline>''),
           file_print SECTION_HEADER] (s, w)
   = (Inr (), (s, printed s (test_banner name) w))"
  by (simp add: prog_simps file_print_open printed_printed test_banner_def)

lemma popen_stream_print_raised:
  assumes "file_open s" and "popen e (length (spawned w)) c = Raised ls err"
  shows "popen_stream e c file_print (s, w) =
           (Inl err, (s, (printed s (concat ls) w)\<lparr>spawned := spawned w @ [c]\<rparr>))"
  using assms
  by (simp add: popen_stream_def Let_def prog_simps for_each_file_print printed_upd_spawned)

lemma popen_stream_print_exited:
  assumes "file_open s" and "popen e (length (spawned w)) c = Exited ls rc"
  shows "popen_stream e c file_print (s, w) =
           (Inr rc, (s, (printed s (concat ls) w)\<lparr>spawned := spawned w @ [c]\<rparr>))"
  using assms
  by (simp add: popen_stream_def Let_def prog_simps for_each_file_print printed_upd_spawned)

lemma run_test_raised:
  assumes "file_open s"
    and "popen e (length (spawned w)) (Exec ((cwd e @ ''/'' @ name) # args)) = Raised ls err"
  shows "run_test e (name # args) (s, w) =
           (Inr (),
            (s\<lparr>results := dict_set (results s) name False\<rparr>,
             (printed s (test_banner name @ concat ls @ str_error err @ ''\<newline>'') w)
               \<lparr>spawned := spawned w @ [Exec ((cwd e @ ''/'' @ name) # args)]\<rparr>))"
proof -
  let ?c = "Exec ((cwd e @ ''/'' @ name) # args)"
  let ?w1 = "printed s (test_banner name) w"
  have p: "popen e (length (spawned ?w1)) ?c = Raised ls err"
    using assms(2) by simp
  have "run_test e (name # args) (s, w) =
          (Inr (),
            (s\<lparr>results := dict_set (results s) name False\<rparr>,
             printed s (str_error err @ ''\<newline>'')
               ((printed s (concat ls) ?w1)\<lparr>spawned := spawned ?w1 @ [?c]\<rparr>)))"
    unfolding run_test_def list.case
    by (simp only: bnd_def try_except_def ret_def prod.case sum.case option.case
        run_test_banner [OF assms(1)] popen_stream_print_raised [OF assms(1) p]
        file_print_open [OF assms(1)] set_result_def)
  then show ?thesis
    by (simp add: printed_upd_spawned printed_printed)
qed

lemma run_test_exited:
  assumes "file_open s"
    and "popen e (length (spawned w)) (Exec ((cwd e @ ''/'' @ name) # args)) = Exited ls rc"
  shows "\<exists>th. run_test e (name # args) (s, w) =
           (Inr (),
            (s\<lparr>thermals := th, results := dict_set (results s) name (rc = 0)\<rparr>,
             (printed s (test_banner name @ concat ls) w)
               \<lparr>spawned := spawned w @ Exec ((cwd e @ ''/'' @ name) # args) #
                   (if pci s \<and> sys_platform e = ''linux'' then [cat_temp] else [])\<rparr>)) \<and>
           (\<not> (pci s \<and> sys_platform e = ''linux'') \<longrightarrow> th = thermals s)"
proof -
  let ?c = "Exec ((cwd e @ ''/'' @ name) # args)"
  let ?w1 = "printed s (test_banner name) w"
  let ?w2 = "(printed s (concat ls) ?w1)\<lparr>spawned := spawned ?w1 @ [?c]\<rparr>"
  have p: "popen e (length (spawned ?w1)) ?c = Exited ls rc"
    using assms(2) by simp
  have step: "run_test e (name # args) (s, w) =
          (case (if pci s \<and> sys_platform e = ''linux''
                 then read_temperatures e name (s, ?w2) else (Inr (), (s, ?w2))) of
             (Inl e, t') \<Rightarrow> (Inl e, t')
           | (Inr x, t') \<Rightarrow>
               (if rc \<noteq> 0 then set_result name False else set_result name True) t')"
    unfolding run_test_def list.case
    by (simp only: bnd_def try_except_def ret_def prod.case sum.case option.case
        run_test_banner [OF assms(1)] popen_stream_print_exited [OF assms(1) p])
  show ?thesis
  proof (cases "pci s \<and> sys_platform e = ''linux''")
    case True
    obtain th where rt: "read_temperatures e name (s, ?w2) =
        (Inr (), (s\<lparr>thermals := th\<rparr>, ?w2\<lparr>spawned := spawned ?w2 @ [cat_temp]\<rparr>))"
      using read_temperatures_shape by blast
    have "run_test e (name # args) (s, w) =
        (if rc \<noteq> 0 then set_result name False else set_result name True)
          (s\<lparr>thermals := th\<rparr>, ?w2\<lparr>spawned := spawned ?w2 @ [cat_temp]\<rparr>)"
      unfolding step if_P [OF True] by (simp only: rt prod.case sum.case)
    then show ?thesis
      using True by (auto simp: set_result_def printed_upd_spawned printed_printed)
  next
    case False
    then have "run_test e (name # args) (s, w) =
        (Inr (), (s\<lparr>thermals := thermals s, results := dict_set (results s) name (rc = 0)\<rparr>,
                  ?w2))"
      unfolding step by (auto simp: set_result_def)
    then show ?thesis
      using False by (auto simp: printed_upd_spawned printed_printed)
  qed
qed



subsection \<open>The hardware detector\<close>

text \<open>\<open>py_in\<close> is the substring test: \<open>sub\<close> lies somewhere inside the line.\<close>

lemma take_prefix_iff: "take (length sub) xs = sub \<longleftrightarrow> (\<exists>q. xs = sub @ q)"
proof
  assume "take (length sub) xs = sub"
  then have "xs = sub @ drop (length sub) xs"
    by (metis append_take_drop_id)
  then show "\<exists>q. xs = sub @ q" ..
next
  assume "\<exists>q. xs = sub @ q"
  then show "take (length sub) xs = sub" by auto
qed

lemma py_in_iff: "py_in sub line \<longleftrightarrow> (\<exists>p q. line = p @ sub @ q)"
proof (induction line)
  case Nil
  then show ?case by auto
next
  case (Cons c cs)
  show ?case
  proof
    assume "py_in sub (c # cs)"
    then consider "take (length sub) (c # cs) = sub" | "py_in sub cs" by auto
    then show "\<exists>p q. c # cs = p @ sub @ q"
    proof cases
      case 1
      then obtain q where "c # cs = sub @ q" using take_prefix_iff by blast
      then have "c # cs = [] @ sub @ q" by simp
      then show ?thesis by blast
    next
      case 2
      then obtain p q where "cs = p @ sub @ q" using Cons.IH by blast
      then have "c # cs = (c # p) @ sub @ q" by simp
      then show ?thesis by blast
    qed
  next
    assume "\<exists>p q. c # cs = p @ sub @ q"
    then obtain p q where pq: "c # cs = p @ sub @ q" by blast
    show "py_in sub (c # cs)"
    proof (cases p)
      case Nil
      then have "take (length sub) (c # cs) = sub" using pq take_prefix_iff by auto
      then show ?thesis by simp
    next
      case (Cons a p')
      then have "cs = p' @ sub @ q" using pq by simp
      then have "py_in sub cs" using Cons.IH by blast
      then show ?thesis by simp
    qed
  qed
qed

lemma printed_detected: "printed (detected ls s) m w = printed s m w"
  by (simp add: printed_def detected_def)

lemma printed_results_upd: "printed (s\<lparr>results := r\<rparr>) m w = printed s m w"
  by (simp add: printed_def)

lemma detect_line_run:
  "file_open s \<Longrightarrow> detect_line l (s, w) = (Inr (), (detected [l] s, printed s l w))"
  by (simp add: detect_line_def detected_def Let_def file_print_open printed_def)

lemma detected_append: "detected ls (detected [l] s) = detected (l # ls) s"
  by (auto simp: detected_def)

lemma detected_fields [simp]:
  "file_open (detected ls s) = file_open s"
  "file_path (detected ls s) = file_path s"
  "results (detected ls s) = results s"
  "thermals (detected ls s) = thermals s"
  "tpus (detected ls s) = tpus s + length ls"
  "pci (detected ls s) = (pci s \<or> (\<exists>l \<in> set ls. py_in ''PCI'' l))"
  "usb (detected ls s) = (usb s \<or> (\<exists>l \<in> set ls. py_in ''USB'' l))"
  by (simp_all add: detected_def)

lemma for_each_detect_line:
  "file_open s \<Longrightarrow>
   for_each detect_line ls (s, w) = (Inr (), (detected ls s, printed s (concat ls) w))"
proof (induction ls arbitrary: s w)
  case Nil
  then show ?case by (simp add: ret_def printed_nil detected_def)
next
  case (Cons l ls)
  have o: "file_open (detected [l] s)" using Cons.prems by simp
  have "for_each detect_line (l # ls) (s, w) =
          for_each detect_line ls (detected [l] s, printed s l w)"
    by (simp add: bnd_def detect_line_run [OF Cons.prems])
  also have "\<dots> = (Inr (), (detected ls (detected [l] s),
                        printed (detected [l] s) (concat ls) (printed s l w)))"
    by (rule Cons.IH [OF o])
  finally show ?case
    by (simp add: detected_append printed_detected printed_printed)
qed

lemma popen_stream_detect:
  assumes "file_open s"
  shows "popen_stream e c detect_line (s, w) =
           (let run = popen e (length (spawned w)) c;
                t = (detected (run_lines run) s,
                     (printed s (concat (run_lines run)) w)\<lparr>spawned := spawned w @ [c]\<rparr>)
            in case run of Raised ls err \<Rightarrow> (Inl err, t) | Exited ls rc \<Rightarrow> (Inr rc, t))"
  using assms
  by (cases "popen e (length (spawned w)) c")
     (simp_all add: popen_stream_def Let_def prog_simps for_each_detect_line
        printed_upd_spawned)

lemma detect_tpus_run:
  assumes "file_open s"
  shows "detect_tpus e (s, w) =
           (let c = Exec [ospath_join (cwd e) ''lstpu''];
                run = popen e (length (spawned w)) c;
                s1 = detected (run_lines run) s
            in (Inr (tpus s1),
                (s1\<lparr>results := dict_set (results s) ''lstpu'' (tpus s1 \<noteq> 0)\<rparr>,
                 (printed s (detect_banner @ concat (run_lines run) @ raised_text run @
                             (if tpus s1 = 0 then ''No TPUs detected\<newline>'' else [])) w)
                   \<lparr>spawned := spawned w @ [c]\<rparr>)))"
proof -
  let ?c = "Exec [ospath_join (cwd e) ''lstpu'']"
  let ?w1 = "printed s detect_banner w"
  let ?run = "popen e (length (spawned w)) ?c"
  let ?s1 = "detected (run_lines ?run) s"
  let ?w2 = "(printed s (concat (run_lines ?run)) ?w1)\<lparr>spawned := spawned w @ [?c]\<rparr>"
  define T where "T = try_except (bnd (popen_stream e ?c detect_line) (\<lambda>_. ret ()))
                        (\<lambda>err. file_print (str_error err @ ''\<newline>''))"
  define F :: "unit prog" where "F = (\<lambda>(s, w). if tpus s \<noteq> 0
                       then set_result ''lstpu'' True (s, w)
                       else bnd (set_result ''lstpu'' False)
                              (\<lambda>_. file_print ''No TPUs detected\<newline>'') (s, w))"
  have banner: "\<And>f. bnd (file_print (''\<newline>'' @ SECTION_HEADER))
           (\<lambda>_. bnd (file_print ''Detected TPUs (lstpu)\<newline>'')
              (\<lambda>_. bnd (file_print SECTION_HEADER) f)) (s, w) = f () (s, ?w1)"
    using assms
    by (simp add: bnd_def file_print_open printed_printed detect_banner_def)
  have o1: "file_open ?s1" using assms by simp
  have tr: "T (s, ?w1) = (Inr (), (?s1, printed s (raised_text ?run) ?w2))"
  proof (cases ?run)
    case (Raised ls err)
    then show ?thesis
      using popen_stream_detect [OF assms, of e ?c ?w1] o1
      by (simp add: T_def try_except_def bnd_def ret_def Let_def file_print_open
          printed_detected)
  next
    case (Exited ls rc)
    then show ?thesis
      using popen_stream_detect [OF assms, of e ?c ?w1]
      by (simp add: T_def try_except_def bnd_def ret_def Let_def printed_nil)
  qed
  have fin: "F (s', w') =
      (Inr (), (s'\<lparr>results := dict_set (results s') ''lstpu'' (tpus s' \<noteq> 0)\<rparr>,
                printed s' (if tpus s' = 0 then ''No TPUs detected\<newline>'' else []) w'))"
    if "file_open s'" for s' w'
    using that
    by (simp add: F_def bnd_def set_result_def file_print_open printed_results_upd printed_nil)
  have "detect_tpus e (s, w) =
          bnd (bnd T (\<lambda>_. bnd F (\<lambda>_. ret ())))
            (\<lambda>_. (\<lambda>(s, w). (Inr (tpus s), (s, w)))) (s, ?w1)"
    unfolding detect_tpus_def Let_def do_all.simps T_def F_def
    by (simp only: bnd_def [of "bnd _ _"] banner)
  also have "\<dots> = (Inr (tpus ?s1),
                (?s1\<lparr>results := dict_set (results s) ''lstpu'' (tpus ?s1 \<noteq> 0)\<rparr>,
                 printed s (if tpus ?s1 = 0 then ''No TPUs detected\<newline>'' else [])
                   (printed s (raised_text ?run) ?w2)))"
    by (simp add: bnd_def tr fin [OF o1] ret_def printed_detected)
  finally show ?thesis
    by (simp add: Let_def printed_upd_spawned printed_printed)
qed

text \<open>
  C7. On an open suite \<^verbatim>\<open>detect_tpus\<close> returns normally. With \<open>ls\<close> the lines the
  detection utility delivered, the device count grows by one per line; the PCI flag is
  set afterwards exactly if it was set before or some line contains \<^verbatim>\<open>PCI\<close>, and likewise
  the USB flag with \<^verbatim>\<open>USB\<close>, so a flag that is set is never cleared; the result recorded
  under \<^verbatim>\<open>lstpu\<close> is pass exactly if the count is greater than zero; and the text sent to
  the sink is the heading, the lines, the exception text if the run raised, and then
  \<^verbatim>\<open>No TPUs detected\<close> exactly if the count is zero.
\<close>

theorem detect_tpus_counts_lines:
  assumes "file_open s"
  shows "\<exists>s' w'.
     (let c = Exec [ospath_join (cwd e) ''lstpu''];
          run = popen e (length (spawned w)) c;
          ls = run_lines run;
          n = tpus s + length ls
      in detect_tpus e (s, w) = (Inr n, (s', w')) \<and>
         tpus s' = n \<and>
         pci s' = (pci s \<or> (\<exists>l \<in> set ls. py_in ''PCI'' l)) \<and>
         usb s' = (usb s \<or> (\<exists>l \<in> set ls. py_in ''USB'' l)) \<and>
         results s' = dict_set (results s) ''lstpu'' (0 < n) \<and>
         w' = (printed s (detect_banner @ concat ls @ raised_text run @
                          (if n = 0 then ''No TPUs detected\<newline>'' else [])) w)
                \<lparr>spawned := spawned w @ [c]\<rparr>)"
  using detect_tpus_run [OF assms, of e w]
  by (simp add: Let_def)

theorem detect_tpus_counts_lines_witness:
  "file_open sample_suite \<and>
   popen sample_env (length (spawned sample_world)) (Exec [ospath_join (cwd sample_env) ''lstpu''])
     = Exited [''0 PCI 0000:01:00.0\<newline>'', ''1 USB 2-1\<newline>''] 0 \<and>
   (\<exists>s' w'. detect_tpus sample_env (sample_suite, sample_world) = (Inr 2, (s', w')) \<and>
      tpus s' = 2 \<and> pci s' \<and> usb s' \<and>
      results s' = [(''lstpu'', True), (''tflite_utils_test'', True)])"
proof -
  have o: "file_open sample_suite" by (simp add: sample_suite_def)
  have r: "popen sample_env (length (spawned sample_world))
             (Exec [ospath_join (cwd sample_env) ''lstpu''])
           = Exited [''0 PCI 0000:01:00.0\<newline>'', ''1 USB 2-1\<newline>''] 0"
    by (simp add: sample_env_def sample_world_def sample_popen_def ospath_join_def)
  from detect_tpus_counts_lines [OF o, of sample_env sample_world]
  obtain s' w' where
    *: "detect_tpus sample_env (sample_suite, sample_world) = (Inr (tpus sample_suite + 2), (s', w')) \<and>
    tpus s' = tpus sample_suite + 2 \<and>
    pci s' = (pci sample_suite \<or>
        (\<exists>l \<in> set [''0 PCI 0000:01:00.0\<newline>'', ''1 USB 2-1\<newline>'']. py_in ''PCI'' l)) \<and>
    usb s' = (usb sample_suite \<or>
        (\<exists>l \<in> set [''0 PCI 0000:01:00.0\<newline>'', ''1 USB 2-1\<newline>'']. py_in ''USB'' l)) \<and>
    results s' = dict_set (results sample_suite) ''lstpu'' (0 < tpus sample_suite + 2)"
    unfolding Let_def r run_lines.simps by fastforce
  have "detect_tpus sample_env (sample_suite, sample_world) = (Inr 2, (s', w')) \<and>
    tpus s' = 2 \<and> pci s' \<and> usb s' \<and>
    results s' = [(''lstpu'', True), (''tflite_utils_test'', True)]"
    using * by (simp add: sample_suite_def)
  then show ?thesis using o r by blast
qed

subsection \<open>The CLI driver\<close>

lemma bnd_ret_left: "bnd (ret x) f = f x"
  by (simp add: bnd_def ret_def)

lemma bnd_ret_right: "bnd m ret = (m :: unit prog)"
  by (rule ext) (auto simp: bnd_def ret_def split: prod.splits sum.splits)

lemma dispatch_selected:
  "dispatch e n name =
     (case selected n name of None \<Rightarrow> ret () | Some (exe, args) \<Rightarrow> run_test e (exe # args))"
  by (simp add: dispatch_def selected_def dispatch_table_def bnd_ret_left bnd_ret_right)

lemma print_system_info_plain:
  assumes "file_open s" and "\<not> pci s" and "\<not> usb s"
  shows "print_system_info e (s, w) = (Inr (), (s, printed s (sysinfo_text e) w))"
  using assms
  by (simp add: print_system_info_def bnd_def ret_def file_print_open printed_printed
      sysinfo_text_def)

lemma run_test_plain:
  assumes "file_open s" and "\<not> pci s"
  shows "run_test e (exe # args) (s, w) =
           (let c = Exec ((cwd e @ ''/'' @ exe) # args);
                r = popen e (length (spawned w)) c
            in (Inr (),
                (s\<lparr>results := dict_set (results s) exe (test_passed r)\<rparr>,
                 (printed s (test_output exe r) w)\<lparr>spawned := spawned w @ [c]\<rparr>)))"
proof (cases "popen e (length (spawned w)) (Exec ((cwd e @ ''/'' @ exe) # args))")
  case (Raised ls err)
  show ?thesis
    using run_test_raised [OF assms(1) Raised]
    by (simp add: Let_def Raised test_output_def del: append.simps)
next
  case (Exited ls rc)
  from run_test_exited [OF assms(1) Exited] obtain th where
    r: "run_test e (exe # args) (s, w) =
       (Inr (),
        (s\<lparr>thermals := th, results := dict_set (results s) exe (rc = 0)\<rparr>,
         (printed s (test_banner exe @ concat ls) w)
           \<lparr>spawned := spawned w @ Exec ((cwd e @ ''/'' @ exe) # args) #
               (if pci s \<and> sys_platform e = ''linux'' then [cat_temp] else [])\<rparr>))"
    and "\<not> (pci s \<and> sys_platform e = ''linux'') \<longrightarrow> th = thermals s"
    by blast
  then have "th = thermals s" using assms(2) by simp
  then show ?thesis
    using r assms(2)
    by (simp add: Let_def Exited test_output_def del: append.simps)
qed

lemma init_suite_new:
  "can_write e p \<Longrightarrow> init_suite e p w = Inr (new_suite p, w\<lparr>fs := fs_write (fs w) p []\<rparr>)"
  by (simp add: init_suite_def new_suite_def)

lemma new_suite_fields [simp]:
  "file_open (new_suite p)" "\<not> pci (new_suite p)" "\<not> usb (new_suite p)"
  "file_path (new_suite p) = p" "results (new_suite p) = []" "thermals (new_suite p) = []"
  by (simp_all add: new_suite_def)

lemma main_body_new:
  "main_body e name (new_suite p, w) =
     (Inr (),
      (case selected 1 name of
         None \<Rightarrow> (new_suite p, printed (new_suite p) (sysinfo_text e) w)
       | Some (exe, args) \<Rightarrow>
           (let c = Exec ((cwd e @ ''/'' @ exe) # args);
                r = popen e (length (spawned w)) c
            in ((new_suite p)\<lparr>results := [(exe, test_passed r)]\<rparr>,
                (printed (new_suite p) (sysinfo_text e @ test_output exe r) w)
                  \<lparr>spawned := spawned w @ [c]\<rparr>))))"
proof (cases "selected 1 name")
  case None
  then show ?thesis
    by (simp add: main_body_def bnd_def print_system_info_plain dispatch_selected ret_def)
next
  case (Some a)
  obtain exe args where a: "a = (exe, args)" by (cases a)
  show ?thesis
    using Some a
    by (simp add: main_body_def bnd_def print_system_info_plain dispatch_selected
        run_test_plain Let_def printed_printed del: append.simps)
qed

lemma ensure_test_data_ok:
  "isdir_test_data e \<or> fetch e = FetchOk \<Longrightarrow>
   \<exists>c. ensure_test_data e w = (Inr (), w\<lparr>console := c\<rparr>)"
proof (cases "isdir_test_data e")
  case True
  then have "ensure_test_data e w = (Inr (), w\<lparr>console := console w\<rparr>)"
    by (simp add: ensure_test_data_def)
  then show ?thesis by blast
next
  case False
  assume "isdir_test_data e \<or> fetch e = FetchOk"
  then have "ensure_test_data e w =
      (Inr (), w\<lparr>console := (console w @ ''Test data not found, downloading...\<newline>'') @
                             ''Download complete, extracting...\<newline>''\<rparr>)"
    using False by (simp add: ensure_test_data_def Let_def)
  then show ?thesis by blast
qed

lemma finalize_plain:
  assumes "thermals s = []" and "fs w (file_path s) = Some c"
  shows "write_summary e (s, w) =
           (if can_write e (file_path s @ ''.tmp'')
            then (Inr (), (s\<lparr>file_open := False\<rparr>,
                   w\<lparr>console := console w @ (''\<newline>'' @ spec_summary e s) @ ''\<newline>'',
                     fs := (\<lambda>p. if p = file_path s @ ''.tmp'' then None
                               else if p = file_path s
                               then Some (spec_summary e s @ ''\<newline>\<newline>'' @ c)
                               else fs w p)\<rparr>))
            else (Inl (OSError ''Permission denied''), (s\<lparr>file_open := False\<rparr>, w)))"
proof -
  have "write_summary e (s, w) = rewrite_file e (s, w)"
    using assms(1) by (simp add: write_summary_def bnd_def ret_def)
  then show ?thesis
    using rewrite_file_run [OF assms(2), of e] assms(2)
    by (simp add: rewrite_file_def Let_def)
qed

subsection \<open>A whole run\<close>

lemma main_body_new_run:
  "main_body e (test_name a) (new_suite p, w) =
     (Inr (),
      ((new_suite p)\<lparr>results := main_results e a w\<rparr>,
       (printed (new_suite p) (main_text e a w) w)\<lparr>spawned := spawned w @ main_cmds e a w\<rparr>))"
proof (cases "selected 1 (test_name a)")
  case None
  then have "main_run e a w = None" by (simp add: main_run_def)
  moreover have "(new_suite p)\<lparr>results := []\<rparr> = new_suite p"
    by (simp add: new_suite_def)
  ultimately show ?thesis
    using None
    by (simp add: main_body_new main_results_def main_text_def main_cmds_def)
next
  case (Some x)
  obtain exe args where x: "x = (exe, args)" by (cases x)
  have "main_run e a w = Some (exe, Exec ((cwd e @ ''/'' @ exe) # args),
          popen e (length (spawned w)) (Exec ((cwd e @ ''/'' @ exe) # args)))"
    using Some x by (simp add: main_run_def)
  then show ?thesis
    using Some x
    by (simp add: main_body_new main_results_def main_text_def main_cmds_def Let_def
        del: append.simps)
qed

lemma main_eq:
  assumes "isdir_test_data e \<or> fetch e = FetchOk" and "can_write e (output_file e a)"
  shows "\<exists>c. main e a w =
           (if can_write e (output_file e a @ ''.tmp'')
            then (Inr (),
                  w\<lparr>console := c,
                    fs := (\<lambda>q. if q = output_file e a @ ''.tmp'' then None
                              else if q = output_file e a
                              then Some (main_summary e a w @ ''\<newline>\<newline>'' @ main_text e a w)
                              else fs w q),
                    spawned := spawned w @ main_cmds e a w\<rparr>)
            else (Inl (OSError ''Permission denied''),
                  w\<lparr>console := c,
                    fs := fs_write (fs w) (output_file e a) (main_text e a w),
                    spawned := spawned w @ main_cmds e a w\<rparr>))"
proof -
  let ?p = "output_file e a"
  obtain c0 where en: "ensure_test_data e w = (Inr (), w\<lparr>console := c0\<rparr>)"
    using ensure_test_data_ok [OF assms(1)] by blast
  let ?w1 = "w\<lparr>console := c0, fs := fs_write (fs w) ?p []\<rparr>"
  let ?s1 = "(new_suite ?p)\<lparr>results := main_results e a w\<rparr>"
  let ?w2 = "(printed (new_suite ?p) (main_text e a ?w1) ?w1)
               \<lparr>spawned := spawned ?w1 @ main_cmds e a ?w1\<rparr>"
  have same: "main_results e a ?w1 = main_results e a w" "main_text e a ?w1 = main_text e a w"
    "main_cmds e a ?w1 = main_cmds e a w"
    by (simp_all add: main_results_def main_text_def main_cmds_def main_run_def
        split: option.splits)
  have body: "main_body e (test_name a) (new_suite ?p, ?w1) = (Inr (), (?s1, ?w2))"
    by (simp only: main_body_new_run same)
  have th: "thermals ?s1 = []" by simp
  have f: "fs ?w2 (file_path ?s1) = Some (main_text e a w)"
    unfolding same by (simp add: printed_def fs_append_def fs_write_def)
  have sm: "spec_summary e ?s1 = main_summary e a w"
    by (simp add: spec_summary_def main_summary_def max_temperature_line_def)
  have m: "main e a w = (case write_summary e (?s1, ?w2) of (r, (s2, w2)) \<Rightarrow> (r, w2))"
    unfolding main_def Let_def output_file_def [symmetric] en
    by (simp add: with_suite_def init_suite_new [OF assms(2)] body same del: append.simps)
  have fin: "main e a w =
      (case (if can_write e (file_path ?s1 @ ''.tmp'')
            then (Inr (), (?s1\<lparr>file_open := False\<rparr>,
                   ?w2\<lparr>console := console ?w2 @ (''\<newline>'' @ main_summary e a w) @ ''\<newline>'',
                     fs := (\<lambda>p. if p = file_path ?s1 @ ''.tmp'' then None
                               else if p = file_path ?s1
                               then Some (main_summary e a w @ ''\<newline>\<newline>'' @ main_text e a w)
                               else fs ?w2 p)\<rparr>))
            else (Inl (OSError ''Permission denied''), (?s1\<lparr>file_open := False\<rparr>, ?w2)))
       of (r, (s2, w2)) \<Rightarrow> (r, w2))"
    by (simp only: m finalize_plain [OF th f] sm)
  show ?thesis
  proof (cases "can_write e (?p @ ''.tmp'')")
    case True
    have "main e a w = (Inr (),
            w\<lparr>console := console ?w2 @ (''\<newline>'' @ main_summary e a w) @ ''\<newline>'',
              fs := (\<lambda>q. if q = ?p @ ''.tmp'' then None
                        else if q = ?p
                        then Some (main_summary e a w @ ''\<newline>\<newline>'' @ main_text e a w)
                        else fs w q),
              spawned := spawned w @ main_cmds e a w\<rparr>)"
      unfolding fin same using True
      by (auto simp: printed_def fs_append_def fs_write_def fun_eq_iff
          simp del: append.simps)
    then show ?thesis using True by auto
  next
    case False
    have "main e a w = (Inl (OSError ''Permission denied''),
            w\<lparr>console := console ?w2,
              fs := fs_write (fs w) ?p (main_text e a w),
              spawned := spawned w @ main_cmds e a w\<rparr>)"
      unfolding fin same using False
      by (auto simp: printed_def fs_append_def fs_write_def fun_eq_iff)
    then show ?thesis using False by auto
  qed
qed

lemma dispatch_table_distinct: "distinct (map fst dispatch_table)"
  by (simp add: dispatch_table_def)

lemma selected_iff:
  "selected n name = Some (exe, args) \<longleftrightarrow>
     exe = name \<and> (name, args) \<in> set dispatch_table \<and>
     (name = ''multiple_tpus_inference_stress_test'' \<longrightarrow> 1 < n)"
proof -
  have m: "map_of dispatch_table name = Some args \<longleftrightarrow> (name, args) \<in> set dispatch_table"
    using dispatch_table_distinct by (auto intro: map_of_is_SomeI dest: map_of_SomeD)
  show ?thesis
  proof (cases "map_of dispatch_table name")
    case None
    then show ?thesis using m by (auto simp: selected_def)
  next
    case (Some args')
    then show ?thesis using m by (auto simp: selected_def)
  qed
qed

lemma run_test_spawned:
  assumes "file_open s"
  shows "\<exists>rest. spawned (snd (snd (run_test e (exe # args) (s, w)))) =
                  spawned w @ Exec ((cwd e @ ''/'' @ exe) # args) # rest \<and>
                set rest \<subseteq> {cat_temp}"
proof (cases "popen e (length (spawned w)) (Exec ((cwd e @ ''/'' @ exe) # args))")
  case (Raised ls err)
  show ?thesis
    unfolding run_test_raised [OF assms Raised] by simp
next
  case (Exited ls rc)
  from run_test_exited [OF assms Exited] obtain th where
    "run_test e (exe # args) (s, w) =
       (Inr (),
        (s\<lparr>thermals := th, results := dict_set (results s) exe (rc = 0)\<rparr>,
         (printed s (test_banner exe @ concat ls) w)
           \<lparr>spawned := spawned w @ Exec ((cwd e @ ''/'' @ exe) # args) #
               (if pci s \<and> sys_platform e = ''linux'' then [cat_temp] else [])\<rparr>))"
    by blast
  then show ?thesis by auto
qed

lemma main_spawned:
  assumes "isdir_test_data e \<or> fetch e = FetchOk" and "can_write e (output_file e a)"
  shows "spawned (snd (main e a w)) = spawned w @ main_cmds e a w"
proof -
  from main_eq [OF assms, of w] obtain c where
    "main e a w =
           (if can_write e (output_file e a @ ''.tmp'')
            then (Inr (),
                  w\<lparr>console := c,
                    fs := (\<lambda>q. if q = output_file e a @ ''.tmp'' then None
                              else if q = output_file e a
                              then Some (main_summary e a w @ ''\<newline>\<newline>'' @ main_text e a w)
                              else fs w q),
                    spawned := spawned w @ main_cmds e a w\<rparr>)
            else (Inl (OSError ''Permission denied''),
                  w\<lparr>console := c,
                    fs := fs_write (fs w) (output_file e a) (main_text e a w),
                    spawned := spawned w @ main_cmds e a w\<rparr>))"
    by blast
  then show ?thesis by simp
qed

lemma main_files:
  assumes "isdir_test_data e \<or> fetch e = FetchOk" and "can_write e (output_file e a)"
  shows "fs (snd (main e a w)) (output_file e a) =
           Some (if can_write e (output_file e a @ ''.tmp'')
                 then main_summary e a w @ ''\<newline>\<newline>'' @ main_text e a w
                 else main_text e a w)"
    and "q \<noteq> output_file e a \<Longrightarrow> q \<noteq> output_file e a @ ''.tmp'' \<Longrightarrow>
         fs (snd (main e a w)) q = fs w q"
    and "fst (main e a w) =
           (if can_write e (output_file e a @ ''.tmp'') then Inr ()
            else Inl (OSError ''Permission denied''))"
proof -
  from main_eq [OF assms, of w] obtain c where
    m: "main e a w =
           (if can_write e (output_file e a @ ''.tmp'')
            then (Inr (),
                  w\<lparr>console := c,
                    fs := (\<lambda>q. if q = output_file e a @ ''.tmp'' then None
                              else if q = output_file e a
                              then Some (main_summary e a w @ ''\<newline>\<newline>'' @ main_text e a w)
                              else fs w q),
                    spawned := spawned w @ main_cmds e a w\<rparr>)
            else (Inl (OSError ''Permission denied''),
                  w\<lparr>console := c,
                    fs := fs_write (fs w) (output_file e a) (main_text e a w),
                    spawned := spawned w @ main_cmds e a w\<rparr>))"
    by blast
  show "fs (snd (main e a w)) (output_file e a) =
           Some (if can_write e (output_file e a @ ''.tmp'')
                 then main_summary e a w @ ''\<newline>\<newline>'' @ main_text e a w
                 else main_text e a w)"
    unfolding m by (simp add: fs_write_def)
  show "fs (snd (main e a w)) q = fs w q"
    if "q \<noteq> output_file e a" "q \<noteq> output_file e a @ ''.tmp''"
    unfolding m using that by (simp add: fs_write_def)
  show "fst (main e a w) =
           (if can_write e (output_file e a @ ''.tmp'') then Inr ()
            else Inl (OSError ''Permission denied''))"
    unfolding m by simp
qed

lemma main_cmds_selected:
  "main_cmds e a w =
     (case selected 1 (test_name a) of
        None \<Rightarrow> []
      | Some (exe, args) \<Rightarrow> [Exec ((cwd e @ ''/'' @ exe) # args)])"
  by (simp add: main_cmds_def main_run_def split: option.splits)

text \<open>
  C5. The chain of tests on the selector runs the row of the dispatch table whose name
  is equal to the selector, and nothing for any other selector: the executable and the
  fixed arguments are those of the row, the table has nine rows with nine different
  names, so at most one test runs, and the row of the multi-device stress test is chosen
  only when the count is greater than one. \<^verbatim>\<open>run_test\<close> starts the executable at the
  working directory followed by a slash and the name, with the arguments unchanged, and
  after it at most the command of the thermal sampler. A whole run of \<^verbatim>\<open>main\<close> that gets
  to open its output file starts exactly that one command for the row chosen with the
  count 1 that \<^verbatim>\<open>main\<close> has in place of the detected count, and no command for a selector
  without a row.
\<close>

theorem dispatch_by_table:
  "dispatch e n name =
     (case selected n name of
        None \<Rightarrow> ret ()
      | Some (exe, args) \<Rightarrow> run_test e (exe # args)) \<and>
   (\<forall>exe args. selected n name = Some (exe, args) \<longleftrightarrow>
      exe = name \<and> (name, args) \<in> set dispatch_table \<and>
      (name = ''multiple_tpus_inference_stress_test'' \<longrightarrow> 1 < n)) \<and>
   length dispatch_table = 9 \<and> distinct (map fst dispatch_table) \<and>
   (\<forall>exe args. file_open s \<longrightarrow>
      (\<exists>rest. spawned (snd (snd (run_test e (exe # args) (s, w)))) =
                 spawned w @ Exec ((cwd e @ ''/'' @ exe) # args) # rest \<and>
               set rest \<subseteq> {cat_temp})) \<and>
   ((isdir_test_data e \<or> fetch e = FetchOk) \<and> can_write e (output_file e a) \<longrightarrow>
      spawned (snd (main e a w)) =
        spawned w @
        (case selected 1 (test_name a) of
           None \<Rightarrow> []
         | Some (exe, args) \<Rightarrow> [Exec ((cwd e @ ''/'' @ exe) # args)]))"
proof -
  have "length dispatch_table = 9" by (simp add: dispatch_table_def)
  then show ?thesis
    using dispatch_selected [of e n name] selected_iff [of n name] dispatch_table_distinct
      run_test_spawned [of s e _ _ w] main_spawned [of e a w] main_cmds_selected [of e a w]
    by (simp only: simp_thms) blast
qed

lemma sample_ok:
  "isdir_test_data sample_env \<or> fetch sample_env = FetchOk"
  "can_write sample_env p"
  "cwd sample_env = ''/home/cts''"
  by (simp_all add: sample_env_def)

lemma sample_spawned: "spawned sample_world = []"
  by (simp add: sample_world_def)

theorem dispatch_by_table_witness:
  "(isdir_test_data sample_env \<or> fetch sample_env = FetchOk) \<and>
   can_write sample_env (output_file sample_env sample_args) \<and>
   file_open sample_suite \<and>
   selected 1 (test_name sample_args) = Some (''tflite_utils_test'', []) \<and>
   spawned (snd (main sample_env sample_args sample_world)) =
     [Exec [''/home/cts/tflite_utils_test'']] \<and>
   dispatch sample_env 1 ''multiple_tpus_inference_stress_test'' = ret () \<and>
   selected 2 ''multiple_tpus_inference_stress_test''
     = Some (''multiple_tpus_inference_stress_test'', [''--num_inferences=5000'']) \<and>
   (\<exists>rest. spawned (snd (snd (run_test sample_env [''tflite_utils_test'']
                                  (sample_suite, sample_world)))) =
            Exec [''/home/cts/tflite_utils_test''] # rest \<and>
          set rest \<subseteq> {cat_temp})"
proof -
  have "(''multiple_tpus_inference_stress_test'', [''--num_inferences=5000''])
          \<in> set dispatch_table"
    by (simp add: dispatch_table_def)
  then have s3: "selected 2 ''multiple_tpus_inference_stress_test''
     = Some (''multiple_tpus_inference_stress_test'', [''--num_inferences=5000''])"
    using dispatch_by_table [of sample_env 2 "''multiple_tpus_inference_stress_test''"
        sample_suite sample_world sample_args]
    by simp
  have "file_open sample_suite" by (simp add: sample_suite_def)
  then have "\<exists>rest. spawned (snd (snd (run_test sample_env (''tflite_utils_test'' # [])
                                  (sample_suite, sample_world)))) =
            spawned sample_world @
            Exec ((cwd sample_env @ ''/'' @ ''tflite_utils_test'') # []) # rest \<and>
          set rest \<subseteq> {cat_temp}"
    using dispatch_by_table [of sample_env 1 "''tflite_utils_test''"
        sample_suite sample_world sample_args]
    by blast
  then have tr: "\<exists>rest. spawned (snd (snd (run_test sample_env [''tflite_utils_test'']
                                  (sample_suite, sample_world)))) =
            Exec [''/home/cts/tflite_utils_test''] # rest \<and>
          set rest \<subseteq> {cat_temp}"
    by (simp add: sample_spawned sample_ok(3))
  have s1: "selected 1 (test_name sample_args) = Some (''tflite_utils_test'', [])"
    by (simp add: selected_def dispatch_table_def sample_args_def)
  have s2: "selected 1 ''multiple_tpus_inference_stress_test'' = None"
    by (simp add: selected_def dispatch_table_def)
  have o: "file_open sample_suite" by (simp add: sample_suite_def)
  have "spawned (snd (main sample_env sample_args sample_world)) =
          spawned sample_world @ [Exec ((cwd sample_env @ ''/'' @ ''tflite_utils_test'') # [])]"
    using dispatch_by_table [of sample_env 1 "''tflite_utils_test''" sample_suite sample_world
        sample_args] sample_ok(1,2) s1
    by simp
  moreover have "dispatch sample_env 1 ''multiple_tpus_inference_stress_test'' = ret ()"
    using dispatch_by_table [of sample_env 1 "''multiple_tpus_inference_stress_test''"
        sample_suite sample_world sample_args] s2
    by simp
  ultimately have "spawned (snd (main sample_env sample_args sample_world)) =
     [Exec [''/home/cts/tflite_utils_test'']]"
    "dispatch sample_env 1 ''multiple_tpus_inference_stress_test'' = ret ()"
    by (simp_all add: sample_spawned sample_ok(3))
  then show ?thesis
    using sample_ok(1,2) s1 o s3 tr by blast
qed

subsection \<open>A test that cannot be started\<close>

lemma with_suite_finalizes:
  "can_write e p \<Longrightarrow>
   snd (with_suite e p body w) =
     snd (snd (write_summary e (snd (body (new_suite p, w\<lparr>fs := fs_write (fs w) p []\<rparr>)))))"
  by (auto simp: with_suite_def init_suite_new split: prod.splits sum.splits)

text \<open>
  C3. When starting the subprocess of a test raises (or reading its output does, after
  the lines \<open>ls\<close>), \<^verbatim>\<open>run_test\<close> on an open suite returns normally: the text of the
  exception is written to the sink after the heading and the lines, and false is recorded
  under the name of the test. A run of \<^verbatim>\<open>main\<close> whose selected test fails in this way
  still ends normally with the summary in front of the output file: the test is listed
  as failed, and so is the overall verdict. And whatever the body of the \<^verbatim>\<open>with\<close>
  statement does, return or raise, the world it leaves is the one \<^verbatim>\<open>_write_summary\<close>
  leaves on the state the body ended in: finalization happens on every exit.
\<close>

theorem launch_failure_recorded:
  "(file_open s \<and>
    popen e (length (spawned w)) (Exec ((cwd e @ ''/'' @ name) # args)) = Raised ls err \<longrightarrow>
      run_test e (name # args) (s, w) =
        (Inr (),
         (s\<lparr>results := dict_set (results s) name False\<rparr>,
          (printed s (test_banner name @ concat ls @ str_error err @ ''\<newline>'') w)
            \<lparr>spawned := spawned w @ [Exec ((cwd e @ ''/'' @ name) # args)]\<rparr>))) \<and>
   ((isdir_test_data e \<or> fetch e = FetchOk) \<and> can_write e (output_file e a) \<and>
    can_write e (output_file e a @ ''.tmp'') \<and>
    selected 1 (test_name a) = Some (exe, xs) \<and>
    popen e (length (spawned w)) (Exec ((cwd e @ ''/'' @ exe) # xs)) = Raised ls err \<longrightarrow>
      fst (main e a w) = Inr () \<and>
      fs (snd (main e a w)) (output_file e a) =
        Some (CTS_HEADER @ exe @ '': Failed\<newline>'' @
              ''\<newline>Overall Compatibility: Failed\<newline>'' @ ''\<newline>\<newline>'' @
              sysinfo_text e @ test_banner exe @ concat ls @ str_error err @ ''\<newline>'')) \<and>
   (can_write e p \<longrightarrow>
      (\<forall>body. snd (with_suite e p body w) =
         snd (snd (write_summary e
                (snd (body (new_suite p, w\<lparr>fs := fs_write (fs w) p []\<rparr>)))))))"
proof (intro conjI impI allI)
  assume "file_open s \<and>
    popen e (length (spawned w)) (Exec ((cwd e @ ''/'' @ name) # args)) = Raised ls err"
  then show "run_test e (name # args) (s, w) =
        (Inr (),
         (s\<lparr>results := dict_set (results s) name False\<rparr>,
          (printed s (test_banner name @ concat ls @ str_error err @ ''\<newline>'') w)
            \<lparr>spawned := spawned w @ [Exec ((cwd e @ ''/'' @ name) # args)]\<rparr>))"
    using run_test_raised by blast
next
  assume h: "(isdir_test_data e \<or> fetch e = FetchOk) \<and> can_write e (output_file e a) \<and>
    can_write e (output_file e a @ ''.tmp'') \<and>
    selected 1 (test_name a) = Some (exe, xs) \<and>
    popen e (length (spawned w)) (Exec ((cwd e @ ''/'' @ exe) # xs)) = Raised ls err"
  then have r: "main_run e a w = Some (exe, Exec ((cwd e @ ''/'' @ exe) # xs), Raised ls err)"
    by (simp add: main_run_def)
  have ok: "isdir_test_data e \<or> fetch e = FetchOk" "can_write e (output_file e a)"
    using h by simp_all
  show "fst (main e a w) = Inr ()"
    using main_files(3) [OF ok, of w] h by simp
  have "main_summary e a w @ ''\<newline>\<newline>'' @ main_text e a w =
        CTS_HEADER @ exe @ '': Failed\<newline>'' @
              ''\<newline>Overall Compatibility: Failed\<newline>'' @ ''\<newline>\<newline>'' @
              sysinfo_text e @ test_banner exe @ concat ls @ str_error err @ ''\<newline>''"
    by (simp add: main_summary_def main_text_def main_results_def r result_line_def
        overall_line_def test_output_def)
  then show "fs (snd (main e a w)) (output_file e a) =
        Some (CTS_HEADER @ exe @ '': Failed\<newline>'' @
              ''\<newline>Overall Compatibility: Failed\<newline>'' @ ''\<newline>\<newline>'' @
              sysinfo_text e @ test_banner exe @ concat ls @ str_error err @ ''\<newline>'')"
    using main_files(1) [OF ok, of w] h by simp
next
  fix body
  assume "can_write e p"
  then show "snd (with_suite e p body w) =
         snd (snd (write_summary e
                (snd (body (new_suite p, w\<lparr>fs := fs_write (fs w) p []\<rparr>)))))"
    by (rule with_suite_finalizes)
qed

theorem launch_failure_recorded_witness:
  "file_open sample_suite \<and>
   popen sample_env (length (spawned sample_world))
     (Exec ((cwd sample_env @ ''/'' @ ''models_benchmark'') # [''--benchmark_color=false'']))
     = Raised [] (OSError ''[Errno 2] No such file or directory'') \<and>
   fst (run_test sample_env [''models_benchmark'', ''--benchmark_color=false'']
          (sample_suite, sample_world)) = Inr () \<and>
   results (fst (snd (run_test sample_env [''models_benchmark'', ''--benchmark_color=false'']
          (sample_suite, sample_world))))
     = [(''lstpu'', False), (''tflite_utils_test'', True), (''models_benchmark'', False)] \<and>
   (isdir_test_data sample_env \<or> fetch sample_env = FetchOk) \<and>
   can_write sample_env (output_file sample_env missing_args) \<and>
   can_write sample_env (output_file sample_env missing_args @ ''.tmp'') \<and>
   selected 1 (test_name missing_args) = Some (''models_benchmark'', [''--benchmark_color=false'']) \<and>
   fst (main sample_env missing_args sample_world) = Inr () \<and>
   fs (snd (main sample_env missing_args sample_world)) ''/home/cts/models_benchmark.txt'' =
     Some (CTS_HEADER @ ''models_benchmark: Failed\<newline>'' @
           ''\<newline>Overall Compatibility: Failed\<newline>'' @ ''\<newline>\<newline>'' @
           sysinfo_text sample_env @ test_banner ''models_benchmark'' @
           ''[Errno 2] No such file or directory\<newline>'') \<and>
   can_write sample_env ''/home/cts/cts.txt'' \<and>
   snd (with_suite sample_env ''/home/cts/cts.txt'' (throw (ValueError ''stop'')) sample_world) =
     snd (snd (write_summary sample_env
       (new_suite ''/home/cts/cts.txt'',
        sample_world\<lparr>fs := fs_write (fs sample_world) ''/home/cts/cts.txt'' []\<rparr>)))"
proof -
  have imp: "can_write sample_env ''/home/cts/cts.txt'' \<longrightarrow>
      (\<forall>body. snd (with_suite sample_env ''/home/cts/cts.txt'' body sample_world) =
         snd (snd (write_summary sample_env
                (snd (body (new_suite ''/home/cts/cts.txt'',
                   sample_world\<lparr>fs := fs_write (fs sample_world) ''/home/cts/cts.txt'' []\<rparr>))))))"
    using launch_failure_recorded [of sample_suite sample_env sample_world
      "''models_benchmark''" "[''--benchmark_color=false'']" "[]"
      "OSError ''[Errno 2] No such file or directory''" missing_args
      "''models_benchmark''" "[''--benchmark_color=false'']" "''/home/cts/cts.txt''"]
    by (elim conjE)
  from imp sample_ok(2)
  have allb: "\<forall>body. snd (with_suite sample_env ''/home/cts/cts.txt'' body sample_world) =
         snd (snd (write_summary sample_env
                (snd (body (new_suite ''/home/cts/cts.txt'',
                   sample_world\<lparr>fs := fs_write (fs sample_world) ''/home/cts/cts.txt'' []\<rparr>)))))"
    by (rule mp)
  note allb [THEN spec, of "throw (ValueError ''stop'')"]
  then have ws: "snd (with_suite sample_env ''/home/cts/cts.txt'' (throw (ValueError ''stop''))
               sample_world) =
     snd (snd (write_summary sample_env
       (new_suite ''/home/cts/cts.txt'',
        sample_world\<lparr>fs := fs_write (fs sample_world) ''/home/cts/cts.txt'' []\<rparr>)))"
    by (simp add: throw_def)
  have o: "file_open sample_suite" by (simp add: sample_suite_def)
  have r: "popen sample_env (length (spawned sample_world))
     (Exec ((cwd sample_env @ ''/'' @ ''models_benchmark'') # [''--benchmark_color=false'']))
     = Raised [] (OSError ''[Errno 2] No such file or directory'')"
    by (simp add: sample_env_def sample_popen_def)
  have s: "selected 1 (test_name missing_args)
             = Some (''models_benchmark'', [''--benchmark_color=false''])"
    by (simp add: selected_def dispatch_table_def missing_args_def)
  have p: "output_file sample_env missing_args = ''/home/cts/models_benchmark.txt''"
    by (simp add: output_file_def ospath_join_def sample_ok(3) missing_args_def)
  note t = launch_failure_recorded [of sample_suite sample_env sample_world
      "''models_benchmark''" "[''--benchmark_color=false'']" "[]"
      "OSError ''[Errno 2] No such file or directory''" missing_args
      "''models_benchmark''" "[''--benchmark_color=false'']"]
  have "run_test sample_env [''models_benchmark'', ''--benchmark_color=false'']
          (sample_suite, sample_world) =
        (Inr (),
         (sample_suite\<lparr>results := dict_set (results sample_suite) ''models_benchmark'' False\<rparr>,
          (printed sample_suite (test_banner ''models_benchmark'' @ concat [] @
              str_error (OSError ''[Errno 2] No such file or directory'') @ ''\<newline>'') sample_world)
            \<lparr>spawned := spawned sample_world @
                [Exec ((cwd sample_env @ ''/'' @ ''models_benchmark'') #
                       [''--benchmark_color=false''])]\<rparr>))"
    using t o r by blast
  then have a: "fst (run_test sample_env [''models_benchmark'', ''--benchmark_color=false'']
          (sample_suite, sample_world)) = Inr ()"
    "results (fst (snd (run_test sample_env [''models_benchmark'', ''--benchmark_color=false'']
          (sample_suite, sample_world))))
     = [(''lstpu'', False), (''tflite_utils_test'', True), (''models_benchmark'', False)]"
    by (simp_all add: sample_suite_def)
  have "fst (main sample_env missing_args sample_world) = Inr () \<and>
      fs (snd (main sample_env missing_args sample_world)) (output_file sample_env missing_args) =
        Some (CTS_HEADER @ ''models_benchmark'' @ '': Failed\<newline>'' @
              ''\<newline>Overall Compatibility: Failed\<newline>'' @ ''\<newline>\<newline>'' @
              sysinfo_text sample_env @ test_banner ''models_benchmark'' @ concat [] @
              str_error (OSError ''[Errno 2] No such file or directory'') @ ''\<newline>'')"
    using t sample_ok(1,2) s r by blast
  then have b: "fst (main sample_env missing_args sample_world) = Inr ()"
    "fs (snd (main sample_env missing_args sample_world)) ''/home/cts/models_benchmark.txt'' =
     Some (CTS_HEADER @ ''models_benchmark: Failed\<newline>'' @
           ''\<newline>Overall Compatibility: Failed\<newline>'' @ ''\<newline>\<newline>'' @
           sysinfo_text sample_env @ test_banner ''models_benchmark'' @
           ''[Errno 2] No such file or directory\<newline>'')"
    by (simp_all add: p)
  show ?thesis
    using o r a b s sample_ok(1,2) ws by blast
qed

subsection \<open>The output file\<close>




subsection \<open>The overall verdict\<close>

text \<open>
  C1. The summary that finalization composes ends with the line
  \<^verbatim>\<open>Overall Compatibility: Passed\<close> when every recorded result is true and with
  \<^verbatim>\<open>Overall Compatibility: Failed\<close> when some recorded result is false; with no recorded
  result at all the line reads \<^verbatim>\<open>Passed\<close>. This summary is the text that finalization
  of an open suite puts in front of the output file. In particular a run of \<^verbatim>\<open>main\<close> with
  a selector that is not in the dispatch table runs no test, records nothing, and leaves
  a file whose summary is the banner and \<^verbatim>\<open>Overall Compatibility: Passed\<close>.
\<close>

theorem overall_compatibility_verdict:
  "summary_text e s =
     Inr (CTS_HEADER @ concat (map result_line (results s)) @
          max_temperature_line e (thermals s) @
          ''\<newline>Overall Compatibility: '' @
          (if (\<forall>r \<in> snd ` set (results s). r) then ''Passed'' else ''Failed'') @
          ''\<newline>'') \<and>
   (results s = [] \<longrightarrow>
      summary_text e s =
        Inr (CTS_HEADER @ max_temperature_line e (thermals s) @
             ''\<newline>Overall Compatibility: Passed\<newline>'')) \<and>
   (file_open s \<and> fs w (file_path s) = Some captured \<and>
    can_write e (file_path s @ ''.tmp'') \<longrightarrow>
      (\<exists>summary. summary_text e s = Inr summary \<and>
         fst (write_summary e (s, w)) = Inr () \<and>
         fs (snd (snd (write_summary e (s, w)))) (file_path s) =
           Some (summary @ ''\<newline>\<newline>'' @ captured @ thermal_block e (thermals s)))) \<and>
   ((isdir_test_data e \<or> fetch e = FetchOk) \<and> can_write e (output_file e a) \<and>
    can_write e (output_file e a @ ''.tmp'') \<and> selected 1 (test_name a) = None \<longrightarrow>
      fst (main e a w) = Inr () \<and>
      fs (snd (main e a w)) (output_file e a) =
        Some (CTS_HEADER @ ''\<newline>Overall Compatibility: Passed\<newline>'' @ ''\<newline>\<newline>'' @
              sysinfo_text e))"
proof (intro conjI impI)
  have l: "list_all snd (results s) = (\<forall>r \<in> snd ` set (results s). r)"
    by (simp add: list_all_iff)
  show "summary_text e s =
     Inr (CTS_HEADER @ concat (map result_line (results s)) @
          max_temperature_line e (thermals s) @
          ''\<newline>Overall Compatibility: '' @
          (if (\<forall>r \<in> snd ` set (results s). r) then ''Passed'' else ''Failed'') @
          ''\<newline>'')"
    using l by (simp add: summary_text_eq spec_summary_def overall_line_def)
  show "summary_text e s =
        Inr (CTS_HEADER @ max_temperature_line e (thermals s) @
             ''\<newline>Overall Compatibility: Passed\<newline>'')"
    if "results s = []"
    using that by (simp add: summary_text_eq spec_summary_def overall_line_def)
next
  assume h: "file_open s \<and> fs w (file_path s) = Some captured \<and>
    can_write e (file_path s @ ''.tmp'')"
  then have a: "file_open s" "fs w (file_path s) = Some captured"
    "can_write e (file_path s @ ''.tmp'')"
    by simp_all
  have "fst (write_summary e (s, w)) = Inr () \<and>
        fs (snd (snd (write_summary e (s, w)))) (file_path s) =
           Some (spec_summary e s @ ''\<newline>\<newline>'' @ captured @ thermal_block e (thermals s))"
    unfolding write_summary_run [OF a] by simp
  then show "\<exists>summary. summary_text e s = Inr summary \<and>
         fst (write_summary e (s, w)) = Inr () \<and>
         fs (snd (snd (write_summary e (s, w)))) (file_path s) =
           Some (summary @ ''\<newline>\<newline>'' @ captured @ thermal_block e (thermals s))"
    using summary_text_eq by blast
next
  assume h: "(isdir_test_data e \<or> fetch e = FetchOk) \<and> can_write e (output_file e a) \<and>
    can_write e (output_file e a @ ''.tmp'') \<and> selected 1 (test_name a) = None"
  then have ok: "isdir_test_data e \<or> fetch e = FetchOk" "can_write e (output_file e a)"
    by simp_all
  have r: "main_run e a w = None" using h by (simp add: main_run_def)
  show "fst (main e a w) = Inr ()"
    using main_files(3) [OF ok, of w] h by simp
  have "main_summary e a w @ ''\<newline>\<newline>'' @ main_text e a w =
        CTS_HEADER @ ''\<newline>Overall Compatibility: Passed\<newline>'' @ ''\<newline>\<newline>'' @ sysinfo_text e"
    by (simp add: main_summary_def main_text_def main_results_def r overall_line_def)
  then show "fs (snd (main e a w)) (output_file e a) =
        Some (CTS_HEADER @ ''\<newline>Overall Compatibility: Passed\<newline>'' @ ''\<newline>\<newline>'' @
              sysinfo_text e)"
    using main_files(1) [OF ok, of w] h by simp
qed

theorem overall_compatibility_verdict_witness:
  "summary_text sample_env sample_suite =
     Inr (CTS_HEADER @ ''lstpu: Failed\<newline>tflite_utils_test: Passed\<newline>'' @
          ''\<newline>Max Temperature (C): 52.0'' @
          ''\<newline>Overall Compatibility: Failed\<newline>'') \<and>
   summary_text sample_env (sample_suite\<lparr>results := [], thermals := []\<rparr>) =
     Inr (CTS_HEADER @ ''\<newline>Overall Compatibility: Passed\<newline>'') \<and>
   file_open sample_suite \<and>
   fs sample_world (file_path sample_suite) = Some ''raw output\<newline>'' \<and>
   can_write sample_env (file_path sample_suite @ ''.tmp'') \<and>
   fst (write_summary sample_env (sample_suite, sample_world)) = Inr () \<and>
   (isdir_test_data sample_env \<or> fetch sample_env = FetchOk) \<and>
   can_write sample_env (output_file sample_env absolute_args) \<and>
   can_write sample_env (output_file sample_env absolute_args @ ''.tmp'') \<and>
   selected 1 (test_name absolute_args) = None \<and>
   fst (main sample_env absolute_args sample_world) = Inr () \<and>
   fs (snd (main sample_env absolute_args sample_world)) ''/tmp/x.txt'' =
     Some (CTS_HEADER @ ''\<newline>Overall Compatibility: Passed\<newline>'' @ ''\<newline>\<newline>'' @
           sysinfo_text sample_env)"
proof -
  note t1 = overall_compatibility_verdict
    [of sample_env sample_suite sample_world "''raw output\<newline>''" absolute_args]
  note t2 = overall_compatibility_verdict
    [of sample_env "sample_suite\<lparr>results := [], thermals := []\<rparr>" sample_world
        "''raw output\<newline>''" absolute_args]
  have s: "selected 1 (test_name absolute_args) = None"
    by (simp add: selected_def dispatch_table_def absolute_args_def)
  have p: "output_file sample_env absolute_args = ''/tmp/x.txt''"
    by (simp add: output_file_def ospath_join_def absolute_args_def)
  have a: "summary_text sample_env sample_suite =
     Inr (CTS_HEADER @ ''lstpu: Failed\<newline>tflite_utils_test: Passed\<newline>'' @
          ''\<newline>Max Temperature (C): 52.0'' @
          ''\<newline>Overall Compatibility: Failed\<newline>'')"
    using t1
    by (simp add: sample_suite_def sample_env_def sample_str_def result_line_def
        max_temperature_line_def)
  have b: "summary_text sample_env (sample_suite\<lparr>results := [], thermals := []\<rparr>) =
     Inr (CTS_HEADER @ ''\<newline>Overall Compatibility: Passed\<newline>'')"
    using t2
    by (simp add: sample_suite_def max_temperature_line_def)
  have "fst (main sample_env absolute_args sample_world) = Inr () \<and>
      fs (snd (main sample_env absolute_args sample_world)) (output_file sample_env absolute_args) =
        Some (CTS_HEADER @ ''\<newline>Overall Compatibility: Passed\<newline>'' @ ''\<newline>\<newline>'' @
              sysinfo_text sample_env)"
    using t1 s sample_ok(1,2) by blast
  moreover have f: "file_open sample_suite"
    "fs sample_world (file_path sample_suite) = Some ''raw output\<newline>''"
    "can_write sample_env (file_path sample_suite @ ''.tmp'')"
    by (simp_all add: sample_suite_def sample_world_def sample_ok(2))
  moreover have "fst (write_summary sample_env (sample_suite, sample_world)) = Inr ()"
    using t1 f by blast
  ultimately show ?thesis
    using a b s sample_ok(1,2) unfolding p by blast
qed

end
